theory Spec2Isabelle
  imports Complex_Main "HOL-Library.Monad_Syntax" "HOL-Library.Char_ord"
    "HOL-Library.List_Lexorder"
begin

section \<open>Common Python notions\<close>

text \<open>
  Exceptions are values of the type \<open>error\<close>; a function that may raise
  returns \<open>error + 'a\<close>. In the fetcher a float is the real number it denotes;
  the arithmetic of the calculator is binary64 arithmetic (next section).
\<close>

datatype error =
  ValueError | RuntimeError | AttributeError | TypeError | IndexError | UpstreamException
  | OverflowError

text \<open>
  A \<open>datetime\<close> is a point on the proleptic Gregorian time line in microseconds
  (wall-clock time for a naive value, UTC for an aware one) together with its
  awareness. Python orders two datetimes of the same awareness by that point and
  raises TypeError when a naive value is compared with an aware one.
\<close>

record datetime =
  instant :: int
  aware :: bool

definition is_leap :: "int \<Rightarrow> bool" where
  "is_leap y = (y mod 4 = 0 \<and> (y mod 100 \<noteq> 0 \<or> y mod 400 = 0))"

definition days_before_year :: "int \<Rightarrow> int" where
  "days_before_year y = (y - 1) * 365 + (y - 1) div 4 - (y - 1) div 100 + (y - 1) div 400"

definition days_in_month :: "int \<Rightarrow> int \<Rightarrow> int" where
  "days_in_month y m =
     (if m = 2 then (if is_leap y then 29 else 28)
      else if m = 4 \<or> m = 6 \<or> m = 9 \<or> m = 11 then 30 else 31)"

definition days_before_month :: "int \<Rightarrow> int \<Rightarrow> int" where
  "days_before_month y m = sum_list (map (days_in_month y) [1..m - 1])"

definition ymd2ord :: "int \<Rightarrow> int \<Rightarrow> int \<Rightarrow> int" where
  "ymd2ord y m d = days_before_year y + days_before_month y m + d"

text \<open>\<open>datetime(y, m, d)\<close>: the naive datetime at midnight of the given day.\<close>

definition datetime_ymd :: "int \<Rightarrow> int \<Rightarrow> int \<Rightarrow> datetime" where
  "datetime_ymd y m d = \<lparr>instant = ymd2ord y m d * 86400000000, aware = False\<rparr>"

text \<open>\<open>a > b\<close> on datetimes.\<close>

definition datetime_gt :: "datetime \<Rightarrow> datetime \<Rightarrow> error + bool" where
  "datetime_gt a b =
     (if aware a = aware b then Inr (instant b < instant a) else Inl TypeError)"

text \<open>\<open>int(x)\<close> on a finite float truncates towards zero.\<close>

definition py_int :: "real \<Rightarrow> int" where
  "py_int x = (if 0 \<le> x then \<lfloor>x\<rfloor> else \<lceil>x\<rceil>)"

text \<open>The nearest integer, a tie going to the even neighbour.\<close>

definition round_half_even :: "real \<Rightarrow> int" where
  "round_half_even x =
     (let f = \<lfloor>x\<rfloor>; d = x - of_int f
      in if d < 1 / 2 then f else if 1 / 2 < d then f + 1
         else if even f then f else f + 1)"

text \<open>
  A Python dict is an association list in insertion order with distinct keys.
  \<open>dict_get\<close> is \<open>d.get(k)\<close>, \<open>dict_pop\<close> is \<open>d.pop(k, None)\<close> (the
  dict after the call), \<open>dict_set\<close> is \<open>d[k] = v\<close>.
\<close>

definition dict_get :: "('k \<times> 'v) list \<Rightarrow> 'k \<Rightarrow> 'v option" where
  "dict_get d k = map_of d k"

definition dict_pop :: "'k \<Rightarrow> ('k \<times> 'v) list \<Rightarrow> ('k \<times> 'v) list" where
  "dict_pop k d = filter (\<lambda>kv. fst kv \<noteq> k) d"

fun dict_set :: "'k \<Rightarrow> 'v \<Rightarrow> ('k \<times> 'v) list \<Rightarrow> ('k \<times> 'v) list" where
  "dict_set k v [] = [(k, v)]"
| "dict_set k v ((k', v') # d) =
     (if k' = k then (k, v) # d else (k', v') # dict_set k v d)"

section \<open>Binary64 floats\<close>

text \<open>
  A Python float is an IEEE 754 binary64 value: a finite value, given here by the
  real number it denotes, one of the two infinities, or NaN. The two zeros
  compare equal in Python and are one value here.
\<close>

datatype float64 = Fin real | PInf | NInf | NaN

text \<open>
  Rounding a real to binary64, to nearest with a tie going to the even
  significand. \<open>exponent x\<close> is the exponent e of the binade of x, with
  \<open>2 ^ e \<le> \<bar>x\<bar> < 2 ^ (e + 1)\<close>, kept at -1022 for the subnormal range and at
  1024 from \<open>2 ^ 1024\<close> on; the floats of that binade are the multiples of
  \<open>2 ^ (e - 52)\<close>. A result of magnitude \<open>2 ^ 1024\<close> or more is an infinity.
\<close>

fun exp_up :: "nat \<Rightarrow> real \<Rightarrow> int" where
  "exp_up 0 x = 0"
| "exp_up (Suc n) x = (if x < 2 then 0 else exp_up n (x / 2) + 1)"

fun exp_down :: "nat \<Rightarrow> real \<Rightarrow> int" where
  "exp_down 0 x = 0"
| "exp_down (Suc n) x = (if 1 \<le> x then 0 else exp_down n (2 * x) - 1)"

definition exponent :: "real \<Rightarrow> int" where
  "exponent x = (if 1 \<le> \<bar>x\<bar> then exp_up 1024 \<bar>x\<bar> else exp_down 1022 \<bar>x\<bar>)"

definition pow2 :: "int \<Rightarrow> real" where
  "pow2 e = (if 0 \<le> e then 2 ^ nat e else 1 / 2 ^ nat (- e))"

definition round64 :: "real \<Rightarrow> float64" where
  "round64 x =
     (let q = pow2 (exponent x - 52);
          y = of_int (round_half_even (x / q)) * q
      in if 2 ^ 1024 \<le> \<bar>y\<bar> then (if 0 < x then PInf else NInf) else Fin y)"

text \<open>
  A decimal literal of the source, such as \<open>1.9\<close>, denotes the float nearest
  to it: \<open>round64 (19 / 10)\<close>. A literal with an integer value below
  \<open>2 ^ 53\<close> is that value exactly.
\<close>

text \<open>The sign of a float that is not NaN, as -1, 0 or 1.\<close>

fun fsgn :: "float64 \<Rightarrow> real" where
  "fsgn (Fin a) = sgn a"
| "fsgn PInf = 1"
| "fsgn NInf = - 1"
| "fsgn NaN = 0"

text \<open>\<open>a * b\<close> on floats.\<close>

fun fmul :: "float64 \<Rightarrow> float64 \<Rightarrow> float64" where
  "fmul (Fin a) (Fin b) = round64 (a * b)"
| "fmul NaN b = NaN"
| "fmul a NaN = NaN"
| "fmul a b =
     (if fsgn a * fsgn b = 0 then NaN else if 0 < fsgn a * fsgn b then PInf else NInf)"

text \<open>\<open>a + b\<close> on floats.\<close>

fun fadd :: "float64 \<Rightarrow> float64 \<Rightarrow> float64" where
  "fadd (Fin a) (Fin b) = round64 (a + b)"
| "fadd NaN b = NaN"
| "fadd a NaN = NaN"
| "fadd PInf NInf = NaN"
| "fadd NInf PInf = NaN"
| "fadd (Fin a) b = b"
| "fadd a b = a"

text \<open>\<open>a <= b\<close> and \<open>a < b\<close> on floats: false when an operand is NaN.\<close>

fun fle :: "float64 \<Rightarrow> float64 \<Rightarrow> bool" where
  "fle (Fin a) (Fin b) = (a \<le> b)"
| "fle NaN b = False"
| "fle a NaN = False"
| "fle NInf b = True"
| "fle a PInf = True"
| "fle a b = False"

fun flt :: "float64 \<Rightarrow> float64 \<Rightarrow> bool" where
  "flt (Fin a) (Fin b) = (a < b)"
| "flt NaN b = False"
| "flt a NaN = False"
| "flt PInf b = False"
| "flt a NInf = False"
| "flt a b = True"

text \<open>
  \<open>int(x)\<close> on a float: truncation towards zero, OverflowError on an
  infinity and ValueError on NaN.
\<close>

fun float_to_int :: "float64 \<Rightarrow> error + int" where
  "float_to_int (Fin x) = Inr (py_int x)"
| "float_to_int NaN = Inl ValueError"
| "float_to_int x = Inl OverflowError"

text \<open>
  \<open>round(x, n)\<close> on a float, for \<open>n \<ge> 0\<close>: the exact value of x is
  rounded to n decimals, a tie going to the even neighbour, and the decimal
  obtained is converted back to a float; an infinity and NaN are returned as
  they are.
\<close>

fun py_round :: "float64 \<Rightarrow> nat \<Rightarrow> float64" where
  "py_round (Fin x) n = round64 (of_int (round_half_even (x * 10 ^ n)) / 10 ^ n)"
| "py_round x n = x"

section \<open>The DPE 2026 calculator (dpe_2026_calculator.py)\<close>

subsection \<open>The classes of the module\<close>

text \<open>
  \<open>@dataclass\<close> generates \<open>__init__\<close> with one parameter for each field,
  in the order of declaration, and raises TypeError (non-default argument
  follows default argument) while the class is being created when a field
  without a default comes after a field with one. A field is given by its name
  and by whether the class body assigns it a default.
\<close>

fun init_params :: "bool \<Rightarrow> (string \<times> bool) list \<Rightarrow> error + unit" where
  "init_params seen_default [] = Inr ()"
| "init_params seen_default ((name, has_default) # rest) =
     (if has_default then init_params True rest
      else if seen_default then Inl TypeError
      else init_params False rest)"

definition dataclass :: "(string \<times> bool) list \<Rightarrow> error + unit" where
  "dataclass flds = init_params False flds"

definition EnergyConsumption_fields :: "(string \<times> bool) list" where
  "EnergyConsumption_fields =
     [(''heating_kwh'', False), (''hot_water_kwh'', False), (''cooling_kwh'', False),
      (''lighting_kwh'', False), (''auxiliary_kwh'', False)]"

definition DPE2026Result_fields :: "(string \<times> bool) list" where
  "DPE2026Result_fields =
     [(''original_classification'', False), (''original_primary_energy'', False),
      (''recalculated_primary_energy'', False), (''recalculated_classification'', False),
      (''is_passoire_thermique'', False), (''renovation_urgency'', False),
      (''rental_ban_date'', False), (''estimated_energy_cost_annual'', False),
      (''potential_value_loss_percent'', False), (''calculation_metadata'', False),
      (''ai_transparency_badge'', True), (''human_verification_required'', True),
      (''priority_renovations'', False), (''estimated_renovation_cost_range'', False)]"

text \<open>
  Executing the module, by an import or as a script: the two enums are created,
  then the dataclass \<open>EnergyConsumption\<close>, then the dataclass
  \<open>DPE2026Result\<close>, then the class \<open>DPE2026Calculator\<close>. An exception
  raised on the way ends the execution, and nothing of the module can be called.
\<close>

definition import_module :: "error + unit" where
  "import_module =
     (case dataclass EnergyConsumption_fields of
        Inl e \<Rightarrow> Inl e
      | Inr u \<Rightarrow> dataclass DPE2026Result_fields)"

datatype DPEClassification = A | B | C | D | E | F | G

datatype RenovationUrgency = COMPLIANT | WARNING | URGENT | CRITICAL

record EnergyConsumption =
  heating_kwh :: float64
  hot_water_kwh :: float64
  cooling_kwh :: float64
  lighting_kwh :: float64
  auxiliary_kwh :: float64

definition total_final_energy :: "EnergyConsumption \<Rightarrow> float64" where
  "total_final_energy c =
     fadd (fadd (fadd (fadd (heating_kwh c) (hot_water_kwh c)) (cooling_kwh c))
             (lighting_kwh c)) (auxiliary_kwh c)"

text \<open>
  The six fixed recommendation texts of \<open>generate_renovation_priorities\<close>, in
  the order the source appends them: insulation, heating system replacement,
  water heater, windows, ventilation, solar panels.
\<close>

datatype renovation_action =
  Isolation_thermique | Remplacement_chauffage | Chauffe_eau
  | Remplacement_fenetres | Installation_VMC | Panneaux_solaires

text \<open>
  The entries of \<open>calculation_metadata\<close> that depend on the call; the three
  remaining entries are constant strings.
\<close>

record calculation_metadata =
  calculation_date :: string
  electricity_factor_used :: float64
  confidence_level :: string

record DPE2026Result =
  original_classification :: DPEClassification
  original_primary_energy :: float64
  recalculated_primary_energy :: float64
  recalculated_classification :: DPEClassification
  is_passoire_thermique :: bool
  renovation_urgency :: RenovationUrgency
  rental_ban_date :: "datetime option"
  estimated_energy_cost_annual :: float64
  potential_value_loss_percent :: float64
  metadata :: calculation_metadata
  ai_transparency_badge :: bool
  human_verification_required :: bool
  priority_renovations :: "renovation_action list"
  estimated_renovation_cost_range :: "int \<times> int"

subsection \<open>The methods of the calculator\<close>

text \<open>
  The methods are the bodies of the source, as they would run on arguments of
  the annotated types once the class \<open>DPE2026Calculator\<close> existed.
\<close>

definition ELECTRICITY_FACTOR_2026 :: float64 where "ELECTRICITY_FACTOR_2026 = round64 (19 / 10)"
definition GAS_FACTOR :: float64 where "GAS_FACTOR = Fin 1"
definition FUEL_OIL_FACTOR :: float64 where "FUEL_OIL_FACTOR = Fin 1"
definition WOOD_FACTOR :: float64 where "WOOD_FACTOR = round64 (6 / 10)"

text \<open>
  The threshold table in the dict's order. An upper bound \<open>None\<close> is
  \<open>float('inf')\<close>.
\<close>

definition DPE_THRESHOLDS :: "(DPEClassification \<times> real \<times> real option) list" where
  "DPE_THRESHOLDS =
     [(A, 0, Some 70), (B, 71, Some 110), (C, 111, Some 180), (D, 181, Some 250),
      (E, 251, Some 330), (F, 331, Some 420), (G, 421, None)]"

definition RENTAL_BAN_DATES :: "(DPEClassification \<times> datetime) list" where
  "RENTAL_BAN_DATES =
     [(G, datetime_ymd 2025 1 1), (F, datetime_ymd 2028 1 1), (E, datetime_ymd 2034 1 1)]"

definition ENERGY_COSTS :: "(string \<times> float64) list" where
  "ENERGY_COSTS =
     [(''electricity'', round64 (2516 / 10000)), (''gas'', round64 (1121 / 10000)),
      (''fuel_oil'', round64 (1450 / 10000)), (''wood'', round64 (650 / 10000))]"

text \<open>
  \<open>classify_energy_performance\<close> on a finite float, given by the real it
  denotes: the comparison of a float with an integer bound is exact.
\<close>

definition in_interval :: "real \<Rightarrow> real \<times> real option \<Rightarrow> bool" where
  "in_interval v b =
     (fst b \<le> v \<and> (case snd b of None \<Rightarrow> True | Some hi \<Rightarrow> v \<le> hi))"

fun classify_loop :: "(DPEClassification \<times> real \<times> real option) list \<Rightarrow> real \<Rightarrow> DPEClassification" where
  "classify_loop [] v = G"
| "classify_loop ((c, b) # rest) v = (if in_interval v b then c else classify_loop rest v)"

definition classify_energy_performance :: "real \<Rightarrow> DPEClassification" where
  "classify_energy_performance primary_energy_kwh =
     classify_loop DPE_THRESHOLDS primary_energy_kwh"

text \<open>
  The same method on any float, as the engine calls it on the recalculated
  energy: the same loop over the same table, with the comparisons of floats.
\<close>

definition in_interval_float :: "float64 \<Rightarrow> real \<times> real option \<Rightarrow> bool" where
  "in_interval_float v b =
     (fle (Fin (fst b)) v
      \<and> (case snd b of None \<Rightarrow> fle v PInf | Some hi \<Rightarrow> fle v (Fin hi)))"

fun classify_loop_float ::
  "(DPEClassification \<times> real \<times> real option) list \<Rightarrow> float64 \<Rightarrow> DPEClassification" where
  "classify_loop_float [] v = G"
| "classify_loop_float ((c, b) # rest) v =
     (if in_interval_float v b then c else classify_loop_float rest v)"

definition classify_energy_performance_float :: "float64 \<Rightarrow> DPEClassification" where
  "classify_energy_performance_float primary_energy_kwh =
     classify_loop_float DPE_THRESHOLDS primary_energy_kwh"

fun weigh_sources :: "float64 \<Rightarrow> (string \<times> float64) list \<Rightarrow> float64" where
  "weigh_sources w [] = w"
| "weigh_sources w ((source, percentage) # rest) =
     weigh_sources
       (if source = ''gas'' then fadd w (fmul percentage GAS_FACTOR)
        else if source = ''fuel_oil'' then fadd w (fmul percentage FUEL_OIL_FACTOR)
        else if source = ''wood'' then fadd w (fmul percentage WOOD_FACTOR)
        else w) rest"

definition weighted_factor :: "float64 \<Rightarrow> (string \<times> float64) list \<Rightarrow> float64" where
  "weighted_factor electricity_percentage other_energy_sources =
     weigh_sources (fadd (Fin 0) (fmul electricity_percentage ELECTRICITY_FACTOR_2026))
       other_energy_sources"

definition recalculate_with_2026_factor ::
  "EnergyConsumption \<Rightarrow> float64 \<Rightarrow> (string \<times> float64) list \<Rightarrow> float64" where
  "recalculate_with_2026_factor final_energy_consumption electricity_percentage other_energy_sources =
     fmul (total_final_energy final_energy_consumption)
       (weighted_factor electricity_percentage other_energy_sources)"

definition calculate_renovation_urgency :: "DPEClassification \<Rightarrow> bool \<Rightarrow> RenovationUrgency" where
  "calculate_renovation_urgency classification is_rental_property =
     (if \<not> is_rental_property then COMPLIANT
      else if classification = G then CRITICAL
      else if classification = F then URGENT
      else if classification = E then WARNING
      else COMPLIANT)"

fun sum_costs :: "float64 \<Rightarrow> float64 \<Rightarrow> (string \<times> float64) list \<Rightarrow> float64" where
  "sum_costs total_consumption total_cost [] = total_cost"
| "sum_costs total_consumption total_cost ((source, percentage) # rest) =
     sum_costs total_consumption
       (fadd total_cost
          (fmul (fmul total_consumption percentage)
             (case dict_get ENERGY_COSTS source of
                None \<Rightarrow> round64 (15 / 100) | Some c \<Rightarrow> c))) rest"

definition estimate_energy_costs ::
  "float64 \<Rightarrow> float64 \<Rightarrow> (string \<times> float64) list \<Rightarrow> float64" where
  "estimate_energy_costs final_energy_kwh surface_m2 energy_mix =
     py_round (sum_costs (fmul final_energy_kwh surface_m2) (Fin 0) energy_mix) 2"

definition base_depreciation :: "DPEClassification \<Rightarrow> float64" where
  "base_depreciation c =
     (case c of E \<Rightarrow> round64 (65 / 10) | F \<Rightarrow> Fin 12 | G \<Rightarrow> Fin 16 | _ \<Rightarrow> Fin 0)"

definition calculate_value_depreciation :: "DPEClassification \<Rightarrow> bool \<Rightarrow> float64" where
  "calculate_value_depreciation classification is_rental_property =
     py_round
       (if is_rental_property \<and> (classification = F \<or> classification = G)
        then fmul (base_depreciation classification) (round64 (125 / 100))
        else base_depreciation classification) 1"

definition generate_renovation_priorities ::
  "DPEClassification \<Rightarrow> EnergyConsumption \<Rightarrow> renovation_action list" where
  "generate_renovation_priorities classification consumption =
     take 5
       ((if flt (Fin 150) (heating_kwh consumption)
         then [Isolation_thermique, Remplacement_chauffage] else [])
        @ (if flt (Fin 50) (hot_water_kwh consumption) then [Chauffe_eau] else [])
        @ (if classification = F \<or> classification = G
           then [Remplacement_fenetres, Installation_VMC] else [])
        @ [Panneaux_solaires])"

definition cost_per_m2 :: "(DPEClassification \<times> int \<times> int) list" where
  "cost_per_m2 = [(E, 150, 250), (F, 300, 500), (G, 500, 800)]"

text \<open>
  The product of an integer rate and the float surface is a float product; the
  two calls of \<open>int\<close> run in the order of the tuple, and the first that raises
  ends the method.
\<close>

definition estimate_renovation_costs ::
  "DPEClassification \<Rightarrow> float64 \<Rightarrow> error + int \<times> int" where
  "estimate_renovation_costs classification surface_m2 =
     (case dict_get cost_per_m2 classification of
        None \<Rightarrow> Inr (0, 0)
      | Some (min_rate, max_rate) \<Rightarrow>
          (case float_to_int (fmul (Fin (of_int min_rate)) surface_m2) of
             Inl e \<Rightarrow> Inl e
           | Inr min_cost \<Rightarrow>
               (case float_to_int (fmul (Fin (of_int max_rate)) surface_m2) of
                  Inl e \<Rightarrow> Inl e
                | Inr max_cost \<Rightarrow> Inr (min_cost, max_cost))))"

text \<open>\<open>DPEClassification(s)\<close>: the enum member with value s, or ValueError.\<close>

definition DPEClassification_of :: "string \<Rightarrow> error + DPEClassification" where
  "DPEClassification_of s =
     (if s = ''A'' then Inr A else if s = ''B'' then Inr B
      else if s = ''C'' then Inr C else if s = ''D'' then Inr D
      else if s = ''E'' then Inr E else if s = ''F'' then Inr F
      else if s = ''G'' then Inr G else Inl ValueError)"

text \<open>Step 3 of the main method: the passoire test.\<close>

definition is_passoire :: "DPEClassification \<Rightarrow> bool" where
  "is_passoire recalculated_class = (recalculated_class = F \<or> recalculated_class = G)"

text \<open>Step 5 of the main method: the rental-ban date.\<close>

definition rental_ban :: "DPEClassification \<Rightarrow> bool \<Rightarrow> datetime option" where
  "rental_ban recalculated_class is_rental_property =
     (if is_rental_property then dict_get RENTAL_BAN_DATES recalculated_class else None)"

text \<open>
  The body of the main method. \<open>enable_ai_transparency\<close> is the calculator's
  field and \<open>now_iso\<close> stands for \<open>datetime.now().isoformat()\<close>. Two
  statements of the body can raise: the enum lookup of step 2 (ValueError) and
  the calls of \<open>int\<close> in the cost range of step 7 (OverflowError, ValueError).
\<close>

definition calculate_full_dpe_2026_body ::
  "bool \<Rightarrow> string \<Rightarrow> string \<Rightarrow> float64 \<Rightarrow> EnergyConsumption \<Rightarrow> float64
     \<Rightarrow> (string \<times> float64) list \<Rightarrow> float64 \<Rightarrow> bool \<Rightarrow> error + DPE2026Result" where
  "calculate_full_dpe_2026_body enable_ai_transparency now_iso original_dpe_class
       original_primary_energy' final_energy_consumption electricity_percentage
       other_energy_sources surface_m2 is_rental_property =
     (let recalculated_primary =
            recalculate_with_2026_factor final_energy_consumption
              electricity_percentage other_energy_sources
      in case DPEClassification_of original_dpe_class of
           Inl e \<Rightarrow> Inl e
         | Inr original_class \<Rightarrow>
            (let recalculated_class = classify_energy_performance_float recalculated_primary;
                 passoire = is_passoire recalculated_class;
                 urgency = calculate_renovation_urgency recalculated_class is_rental_property;
                 ban = rental_ban recalculated_class is_rental_property;
                 energy_mix =
                   fold (\<lambda>kv. dict_set (fst kv) (snd kv)) other_energy_sources
                     [(''electricity'', electricity_percentage)];
                 annual_cost =
                   estimate_energy_costs (total_final_energy final_energy_consumption)
                     surface_m2 energy_mix;
                 value_loss = calculate_value_depreciation recalculated_class is_rental_property;
                 priorities =
                   generate_renovation_priorities recalculated_class final_energy_consumption
             in case estimate_renovation_costs recalculated_class surface_m2 of
                  Inl e \<Rightarrow> Inl e
                | Inr cost_range \<Rightarrow>
                   (let md = \<lparr>calculation_date = now_iso,
                               electricity_factor_used = ELECTRICITY_FACTOR_2026,
                               confidence_level =
                                 (if flt (round64 (8 / 10)) electricity_percentage
                                  then ''high'' else ''medium'')\<rparr>;
                        human_verification =
                          (passoire \<and> is_rental_property
                           \<and> (urgency = URGENT \<or> urgency = CRITICAL))
                    in Inr \<lparr>original_classification = original_class,
                            original_primary_energy = original_primary_energy',
                            recalculated_primary_energy = recalculated_primary,
                            recalculated_classification = recalculated_class,
                            is_passoire_thermique = passoire,
                            renovation_urgency = urgency,
                            rental_ban_date = ban,
                            estimated_energy_cost_annual = annual_cost,
                            potential_value_loss_percent = value_loss,
                            metadata = md,
                            ai_transparency_badge = enable_ai_transparency,
                            human_verification_required = human_verification,
                            priority_renovations = priorities,
                            estimated_renovation_cost_range = cost_range\<rparr>)))"

text \<open>
  A call of the main method of the module as it is: the module is executed
  first, and the body runs only if that succeeds.
\<close>

definition calculate_full_dpe_2026 ::
  "bool \<Rightarrow> string \<Rightarrow> string \<Rightarrow> float64 \<Rightarrow> EnergyConsumption \<Rightarrow> float64
     \<Rightarrow> (string \<times> float64) list \<Rightarrow> float64 \<Rightarrow> bool \<Rightarrow> error + DPE2026Result" where
  "calculate_full_dpe_2026 enable_ai_transparency now_iso original_dpe_class
       original_primary_energy' final_energy_consumption electricity_percentage
       other_energy_sources surface_m2 is_rental_property =
     (case import_module of
        Inl e \<Rightarrow> Inl e
      | Inr u \<Rightarrow>
          calculate_full_dpe_2026_body enable_ai_transparency now_iso original_dpe_class
            original_primary_energy' final_energy_consumption electricity_percentage
            other_energy_sources surface_m2 is_rental_property)"

text \<open>The consumption of the example run at the end of the module.\<close>

definition example_consumption :: EnergyConsumption where
  "example_consumption =
     \<lparr>heating_kwh = Fin 200, hot_water_kwh = Fin 40, cooling_kwh = Fin 5,
        lighting_kwh = Fin 10, auxiliary_kwh = Fin 15\<rparr>"

section \<open>The government data fetcher (french_gov_data_fetcher.py)\<close>

subsection \<open>Data\<close>

text \<open>
  A parsed JSON value. An object is a Python dict, kept as an association list.
  Characters are bytes, so a key with an accented letter is written as its
  UTF-8 encoding.
\<close>

datatype json =
  JNull | JBool bool | JNum real | JStr string | JArr "json list"
  | JObj "(string \<times> json) list"

type_synonym dict = "(string \<times> json) list"

record DVFTransaction =
  id_mutation :: string
  date_mutation :: datetime
  nature_mutation :: string
  valeur_fonciere :: real
  adresse_numero :: "string option"
  adresse_nom_voie :: "string option"
  code_postal :: string
  code_commune :: string
  nom_commune :: string
  type_local :: string
  surface_reelle_bati :: "real option"
  nombre_pieces_principales :: "int option"
  longitude :: "real option"
  latitude :: "real option"

text \<open>
  The postal code of a diagnostic is the field \<open>code_postal\<close> in the source
  too; here it carries the prefix \<open>dpe_\<close> to keep it apart from the
  transaction's field.
\<close>

record DPEDiagnostic =
  n_dpe :: string
  date_etablissement_dpe :: datetime
  classe_consommation_energie :: string
  classe_estimation_ges :: string
  consommation_energie :: real
  estimation_ges :: real
  dpe_code_postal :: string
  type_batiment :: string
  annee_construction :: "string option"
  surface_habitable :: real
  type_energie_principale_chauffage :: string
  type_installation_chauffage :: "string option"
  type_energie_n_1 :: "string option"
  conso_chauffage :: "real option"
  conso_ecs :: "real option"
  conso_refroidissement :: "real option"
  conso_eclairage :: "real option"
  conso_auxiliaires :: "real option"

record GDPRConfig =
  anonymization_level :: string
  include_exact_addresses :: bool
  data_retention_days :: int

definition default_GDPRConfig :: GDPRConfig where
  "default_GDPRConfig =
     \<lparr>anonymization_level = ''postal_code'', include_exact_addresses = False,
        data_retention_days = 90\<rparr>"

text \<open>A query parameter value: \<open>limit\<close> and \<open>size\<close> are ints, the filters strings.\<close>

datatype param = PInt int | PStr string

text \<open>
  What one GET attempt of \<open>_fetch_with_retry\<close> does: it returns a body that
  parses to a dict (the declared return type is \<open>Optional[Dict]\<close>), it raises
  \<open>aiohttp.ClientError\<close>, or it raises an exception of another class (a
  body that is not JSON makes \<open>response.json()\<close> raise a ValueError, for one).
\<close>

datatype outcome = Response dict | ClientError | OtherError

text \<open>
  The behaviour of code outside the repository is a parameter of the model:
  pydantic's validation of a str, float and int field, \<open>float(s)\<close> on a
  string, \<open>datetime.fromisoformat\<close>, \<open>strftime('%Y-%m-%d')\<close>,
  \<open>urlencode\<close> and the MD5 hex digest. A validator returns \<open>None\<close>
  where the library raises.
\<close>

record library =
  str_validator :: "json \<Rightarrow> string option"
  float_validator :: "json \<Rightarrow> real option"
  int_validator :: "json \<Rightarrow> int option"
  float_of_str :: "string \<Rightarrow> real option"
  fromisoformat :: "string \<Rightarrow> datetime option"
  strftime_ymd :: "datetime \<Rightarrow> string"
  urlencode :: "(string \<times> param) list \<Rightarrow> string"
  md5_hexdigest :: "string \<Rightarrow> string"

text \<open>
  The fetcher object. \<open>session\<close> is \<open>None\<close> until \<open>connect()\<close>; a
  connected session answers the n-th GET attempt for a URL and parameters.
  \<open>redis_client\<close> is \<open>None\<close> until \<open>connect()\<close>; a connected client
  is the store that \<open>get\<close> reads, a cached byte string being identified with
  the JSON value it encodes (it is never empty). A read that fails is a miss for
  the caller, and so is a key the store does not hold.
\<close>

record fetcher =
  gdpr_config :: GDPRConfig
  session :: "(string \<Rightarrow> (string \<times> param) list \<Rightarrow> nat \<Rightarrow> outcome) option"
  redis_client :: "(string \<Rightarrow> json option) option"

text \<open>A \<open>setex\<close> command sent to the cache: key, TTL in seconds, data.\<close>

type_synonym cache_write = "string \<times> int \<times> json"

definition DVF_BASE_URL :: string where
  "DVF_BASE_URL = ''https://data.economie.gouv.fr/api/v2/catalog/datasets/dvf/records''"

definition ADEME_DPE_BASE_URL :: string where
  "ADEME_DPE_BASE_URL =
     ''https://data.ademe.fr/data-fair/api/v1/datasets/dpe-v2-logements-existants/lines''"

definition CACHE_TTL_DVF :: int where "CACHE_TTL_DVF = 86400"
definition CACHE_TTL_DPE :: int where "CACHE_TTL_DPE = 43200"
definition MAX_RETRIES :: int where "MAX_RETRIES = 3"
definition RETRY_BACKOFF_SECONDS :: "int list" where "RETRY_BACKOFF_SECONDS = [1, 3, 9]"

subsection \<open>Python helpers\<close>

text \<open>\<open>d.get(k, default)\<close>.\<close>

definition dict_get_default :: "('k \<times> 'v) list \<Rightarrow> 'k \<Rightarrow> 'v \<Rightarrow> 'v" where
  "dict_get_default d k dflt = (case dict_get d k of None \<Rightarrow> dflt | Some v \<Rightarrow> v)"

text \<open>\<open>xs[:limit]\<close> on a sequence: a negative limit counts from the end.\<close>

definition py_take :: "int \<Rightarrow> 'a list \<Rightarrow> 'a list" where
  "py_take limit xs =
     (if 0 \<le> limit then take (nat limit) xs else take (length xs - nat (- limit)) xs)"

text \<open>
  \<open>for x in v[:limit]\<close> on a JSON value: the elements the loop visits. A list
  gives its elements and a string its characters; any other value cannot be
  sliced (the exception is a TypeError, for a dict a KeyError from Python 3.12).
\<close>

definition json_slice :: "json \<Rightarrow> int \<Rightarrow> error + json list" where
  "json_slice v limit =
     (case v of
        JArr xs \<Rightarrow> Inr (py_take limit xs)
      | JStr s \<Rightarrow> Inr (map (\<lambda>c. JStr [c]) (py_take limit s))
      | _ \<Rightarrow> Inl TypeError)"

text \<open>\<open>s.replace('Z', '+00:00')\<close>.\<close>

definition replace_Z :: "string \<Rightarrow> string" where
  "replace_Z s = concat (map (\<lambda>c. if c = CHR ''Z'' then ''+00:00'' else [c]) s)"

text \<open>\<open>sep.join(xs)\<close>.\<close>

fun join :: "string \<Rightarrow> string list \<Rightarrow> string" where
  "join sep [] = []"
| "join sep [x] = x"
| "join sep (x # y # ys) = x @ sep @ join sep (y # ys)"

text \<open>\<open>str(n)\<close> for an int, as an f-string formats it.\<close>

fun str_nat :: "nat \<Rightarrow> string" where
  "str_nat n =
     (if n < 10 then [char_of (48 + n)]
      else str_nat (n div 10) @ [char_of (48 + n mod 10)])"

declare str_nat.simps [simp del]

definition str_int :: "int \<Rightarrow> string" where
  "str_int i = (if i < 0 then CHR ''-'' # str_nat (nat (- i)) else str_nat (nat i))"

text \<open>\<open>float(v)\<close>.\<close>

definition py_float :: "library \<Rightarrow> json \<Rightarrow> real option" where
  "py_float L v =
     (case v of
        JNum x \<Rightarrow> Some x
      | JBool b \<Rightarrow> Some (if b then 1 else 0)
      | JStr s \<Rightarrow> float_of_str L s
      | _ \<Rightarrow> None)"

text \<open>
  A field declared \<open>Optional[T]\<close> that is given \<open>d.get(k)\<close>: an absent key and
  a JSON null are both Python's \<open>None\<close>, which the field accepts; any other
  value goes through the validator of T.
\<close>

definition optional_field :: "(json \<Rightarrow> 'a option) \<Rightarrow> json option \<Rightarrow> 'a option option" where
  "optional_field validate v =
     (case v of
        None \<Rightarrow> Some None
      | Some JNull \<Rightarrow> Some None
      | Some x \<Rightarrow> map_option Some (validate x))"

text \<open>\<open>datetime.fromisoformat(v.replace('Z', '+00:00'))\<close>: only a string has \<open>replace\<close>.\<close>

definition parse_datetime :: "library \<Rightarrow> json \<Rightarrow> datetime option" where
  "parse_datetime L v =
     (case v of JStr s \<Rightarrow> fromisoformat L (replace_Z s) | _ \<Rightarrow> None)"

subsection \<open>Cache\<close>

definition generate_cache_key :: "library \<Rightarrow> string \<Rightarrow> (string \<times> param) list \<Rightarrow> string" where
  "generate_cache_key L prefix params =
     (let sorted_params = sort_key fst params;
          params_str = urlencode L sorted_params;
          hash_suffix = take 8 (md5_hexdigest L params_str)
      in ''ecoimmo:'' @ prefix @ '':'' @ hash_suffix)"

definition get_from_cache :: "fetcher \<Rightarrow> string \<Rightarrow> json option" where
  "get_from_cache f cache_key =
     (case redis_client f of None \<Rightarrow> None | Some store \<Rightarrow> store cache_key)"

definition set_to_cache :: "fetcher \<Rightarrow> string \<Rightarrow> json \<Rightarrow> int \<Rightarrow> cache_write list" where
  "set_to_cache f cache_key data ttl =
     (case redis_client f of None \<Rightarrow> [] | Some store \<Rightarrow> [(cache_key, ttl, data)])"

subsection \<open>Fetching with retries\<close>

text \<open>
  The loop \<open>for attempt in range(max_retries)\<close>, with \<open>remaining\<close> counting
  the iterations left. A ClientError before the last attempt reads the backoff
  delay (an IndexError past the end of the table) and goes on; on the last
  attempt it returns \<open>None\<close>. Any other exception leaves the function.
\<close>

fun retry_loop :: "(nat \<Rightarrow> outcome) \<Rightarrow> int \<Rightarrow> nat \<Rightarrow> nat \<Rightarrow> error + dict option" where
  "retry_loop get max_retries attempt 0 = Inr None"
| "retry_loop get max_retries attempt (Suc remaining) =
     (case get attempt of
        Response data \<Rightarrow> Inr (Some data)
      | OtherError \<Rightarrow> Inl UpstreamException
      | ClientError \<Rightarrow>
          (if int attempt < max_retries - 1
           then (if attempt < length RETRY_BACKOFF_SECONDS
                 then retry_loop get max_retries (Suc attempt) remaining
                 else Inl IndexError)
           else Inr None))"

definition fetch_with_retry ::
  "fetcher \<Rightarrow> string \<Rightarrow> (string \<times> param) list \<Rightarrow> int \<Rightarrow> error + dict option" where
  "fetch_with_retry f url params max_retries =
     (case session f of
        None \<Rightarrow> Inl RuntimeError
      | Some http \<Rightarrow> retry_loop (http url params) max_retries 0 (nat max_retries))"

subsection \<open>Anonymization\<close>

text \<open>
  \<open>_anonymize_address\<close> changes its argument in place and returns it; the model
  returns the changed value. \<open>pop\<close> with two arguments exists on a dict only:
  a list raises TypeError and any other value AttributeError.
\<close>

definition anonymize_address :: "GDPRConfig \<Rightarrow> json \<Rightarrow> error + json" where
  "anonymize_address cfg transaction =
     (if \<not> include_exact_addresses cfg
      then (case transaction of
              JObj d \<Rightarrow>
                (let d1 = dict_pop ''adresse_numero'' d;
                     d2 = dict_pop ''adresse_nom_voie'' d1
                 in if anonymization_level cfg = ''commune''
                    then Inr (JObj (dict_pop ''latitude'' (dict_pop ''longitude'' d2)))
                    else Inr (JObj d2))
            | JArr xs \<Rightarrow> Inl TypeError
            | _ \<Rightarrow> Inl AttributeError)
      else Inr transaction)"

subsection \<open>Transactions\<close>

text \<open>
  The body of the \<open>try\<close> in the parsing loop: \<open>None\<close> where an exception is
  caught and the record is skipped. A value that is not a dict has no \<open>get\<close>.
\<close>

definition parse_dvf :: "library \<Rightarrow> json \<Rightarrow> DVFTransaction option" where
  "parse_dvf L flds =
     (case flds of
        JObj d \<Rightarrow>
          do {
            idm \<leftarrow> str_validator L (dict_get_default d ''id_mutation'' (JStr ''''));
            dm \<leftarrow> parse_datetime L (dict_get_default d ''date_mutation'' (JStr ''''));
            nm \<leftarrow> str_validator L (dict_get_default d ''nature_mutation'' (JStr ''''));
            vf \<leftarrow> py_float L (dict_get_default d ''valeur_fonciere'' (JNum 0));
            an \<leftarrow> optional_field (str_validator L) (dict_get d ''adresse_numero'');
            av \<leftarrow> optional_field (str_validator L) (dict_get d ''adresse_nom_voie'');
            cp \<leftarrow> str_validator L (dict_get_default d ''code_postal'' (JStr ''''));
            cc \<leftarrow> str_validator L (dict_get_default d ''code_commune'' (JStr ''''));
            nc \<leftarrow> str_validator L (dict_get_default d ''nom_commune'' (JStr ''''));
            tl \<leftarrow> str_validator L (dict_get_default d ''type_local'' (JStr ''''));
            sb \<leftarrow> optional_field (float_validator L) (dict_get d ''surface_reelle_bati'');
            np \<leftarrow> optional_field (int_validator L) (dict_get d ''nombre_pieces_principales'');
            lo \<leftarrow> optional_field (float_validator L) (dict_get d ''longitude'');
            la \<leftarrow> optional_field (float_validator L) (dict_get d ''latitude'');
            Some \<lparr>id_mutation = idm, date_mutation = dm, nature_mutation = nm,
                   valeur_fonciere = vf, adresse_numero = an, adresse_nom_voie = av,
                   code_postal = cp, code_commune = cc, nom_commune = nc, type_local = tl,
                   surface_reelle_bati = sb, nombre_pieces_principales = np,
                   longitude = lo, latitude = la\<rparr>
          }
      | _ \<Rightarrow> None)"

text \<open>
  The parsing loop of \<open>fetch_dvf_transactions\<close>. \<open>record.get\<close> and the
  anonymization stand outside the \<open>try\<close>, so what they raise leaves the loop.
\<close>

fun dvf_loop :: "library \<Rightarrow> GDPRConfig \<Rightarrow> json list \<Rightarrow> error + DVFTransaction list" where
  "dvf_loop L cfg [] = Inr []"
| "dvf_loop L cfg (record # rest) =
     (case record of
        JObj r \<Rightarrow>
          (case anonymize_address cfg (dict_get_default r ''fields'' (JObj [])) of
             Inl e \<Rightarrow> Inl e
           | Inr flds \<Rightarrow>
               (case dvf_loop L cfg rest of
                  Inl e \<Rightarrow> Inl e
                | Inr transactions \<Rightarrow>
                    Inr (case parse_dvf L flds of
                           None \<Rightarrow> transactions
                         | Some transaction \<Rightarrow> transaction # transactions)))
      | _ \<Rightarrow> Inl AttributeError)"

text \<open>The single quote that the where clauses put around a value.\<close>

definition quote :: string where "quote = [CHR 0x27]"

text \<open>A filter is used when it is truthy: neither \<open>None\<close> nor the empty string.\<close>

definition str_filter :: "string \<Rightarrow> string option \<Rightarrow> string \<Rightarrow> string list" where
  "str_filter pre v post =
     (case v of None \<Rightarrow> [] | Some s \<Rightarrow> if s = [] then [] else [pre @ s @ post])"

definition date_filter :: "library \<Rightarrow> string \<Rightarrow> datetime option \<Rightarrow> string \<Rightarrow> string list" where
  "date_filter L pre v post =
     (case v of None \<Rightarrow> [] | Some t \<Rightarrow> [pre @ strftime_ymd L t @ post])"

definition dvf_params ::
  "library \<Rightarrow> string option \<Rightarrow> string option \<Rightarrow> datetime option \<Rightarrow> datetime option
     \<Rightarrow> string option \<Rightarrow> int \<Rightarrow> (string \<times> param) list" where
  "dvf_params L code_postal' code_commune' date_min date_max type_local' limit =
     (let where_clauses =
            str_filter (''code_postal='' @ quote) code_postal' quote
            @ str_filter (''code_commune='' @ quote) code_commune' quote
            @ date_filter L (''date_mutation>='' @ quote) date_min quote
            @ date_filter L (''date_mutation<='' @ quote) date_max quote
            @ str_filter (''type_local='' @ quote) type_local' quote
      in (''limit'', PInt limit)
         # (if where_clauses = [] then []
            else [(''where'', PStr (join '' AND '' where_clauses))]))"

text \<open>
  \<open>fetch_dvf_transactions\<close> returns what the call returns or raises, together
  with the cache writes it sent.
\<close>

definition fetch_dvf_transactions ::
  "library \<Rightarrow> fetcher \<Rightarrow> string option \<Rightarrow> string option \<Rightarrow> datetime option
     \<Rightarrow> datetime option \<Rightarrow> string option \<Rightarrow> int
     \<Rightarrow> (error + DVFTransaction list) \<times> cache_write list" where
  "fetch_dvf_transactions L f code_postal' code_commune' date_min date_max type_local' limit =
     (let params = dvf_params L code_postal' code_commune' date_min date_max type_local' limit;
          cache_key = generate_cache_key L ''dvf'' params;
          parse = (\<lambda>records writes.
                     (case json_slice records limit of
                        Inl e \<Rightarrow> (Inl e, writes)
                      | Inr rs \<Rightarrow> (dvf_loop L (gdpr_config f) rs, writes)))
      in case get_from_cache f cache_key of
           Some cached_data \<Rightarrow> parse cached_data []
         | None \<Rightarrow>
             (case fetch_with_retry f DVF_BASE_URL params MAX_RETRIES of
                Inl e \<Rightarrow> (Inl e, [])
              | Inr None \<Rightarrow> (Inr [], [])
              | Inr (Some response) \<Rightarrow>
                  (if response = [] then (Inr [], [])
                   else (case dict_get response ''records'' of
                           None \<Rightarrow> (Inr [], [])
                         | Some records \<Rightarrow>
                             parse records
                               (set_to_cache f cache_key records CACHE_TTL_DVF)))))"

subsection \<open>Diagnostics\<close>

definition e_acute :: string where "e_acute = [CHR 0xC3, CHR 0xA9]"
definition a_circ :: string where "a_circ = [CHR 0xC3, CHR 0xA2]"
definition degree :: string where "degree = [CHR 0xC2, CHR 0xB0]"

text \<open>
  The body of the \<open>try\<close> in the loop of \<open>fetch_dpe_diagnostics\<close>; here
  \<open>result.get\<close> is inside the \<open>try\<close>, so a result that is not a dict is
  skipped.
\<close>

definition parse_dpe :: "library \<Rightarrow> json \<Rightarrow> DPEDiagnostic option" where
  "parse_dpe L result =
     (case result of
        JObj d \<Rightarrow>
          do {
            nd \<leftarrow> str_validator L (dict_get_default d (''N'' @ degree @ ''DPE'') (JStr ''''));
            de \<leftarrow> parse_datetime L
                    (dict_get_default d (''Date_'' @ e_acute @ ''tablissement_DPE'') (JStr ''''));
            ce \<leftarrow> str_validator L
                    (dict_get_default d (''Classe_consommation_'' @ e_acute @ ''nergie'')
                       (JStr ''''));
            cg \<leftarrow> str_validator L (dict_get_default d ''Classe_estimation_GES'' (JStr ''''));
            co \<leftarrow> py_float L
                    (dict_get_default d (''Consommation_'' @ e_acute @ ''nergie'') (JNum 0));
            eg \<leftarrow> py_float L (dict_get_default d ''Estimation_GES'' (JNum 0));
            cp \<leftarrow> str_validator L (dict_get_default d ''Code_postal_(BAN)'' (JStr ''''));
            tb \<leftarrow> str_validator L
                    (dict_get_default d (''Type_b'' @ a_circ @ ''timent'') (JStr ''''));
            ac \<leftarrow> optional_field (str_validator L)
                    (dict_get d (''Ann'' @ e_acute @ ''e_construction''));
            sh \<leftarrow> py_float L (dict_get_default d ''Surface_habitable_logement'' (JNum 0));
            te \<leftarrow> str_validator L
                    (dict_get_default d
                       (''Type_'' @ e_acute @ ''nergie_principale_chauffage'') (JStr ''''));
            ti \<leftarrow> optional_field (str_validator L) (dict_get d ''Type_installation_chauffage'');
            t1 \<leftarrow> optional_field (str_validator L)
                    (dict_get d (''Type_'' @ e_acute @ ''nergie_n'' @ degree @ ''1''));
            cc \<leftarrow> optional_field (float_validator L)
                    (dict_get d (''Conso_chauffage_'' @ e_acute @ ''_finale''));
            cs \<leftarrow> optional_field (float_validator L)
                    (dict_get d (''Conso_ECS_'' @ e_acute @ ''_finale''));
            cr \<leftarrow> optional_field (float_validator L)
                    (dict_get d (''Conso_refroidissement_'' @ e_acute @ ''_finale''));
            cl \<leftarrow> optional_field (float_validator L)
                    (dict_get d (''Conso_'' @ e_acute @ ''clairage_'' @ e_acute @ ''_finale''));
            ca \<leftarrow> optional_field (float_validator L)
                    (dict_get d (''Conso_auxiliaires_'' @ e_acute @ ''_finale''));
            Some \<lparr>n_dpe = nd, date_etablissement_dpe = de,
                   classe_consommation_energie = ce, classe_estimation_ges = cg,
                   consommation_energie = co, estimation_ges = eg, dpe_code_postal = cp,
                   type_batiment = tb, annee_construction = ac, surface_habitable = sh,
                   type_energie_principale_chauffage = te,
                   type_installation_chauffage = ti, type_energie_n_1 = t1,
                   conso_chauffage = cc, conso_ecs = cs, conso_refroidissement = cr,
                   conso_eclairage = cl, conso_auxiliaires = ca\<rparr>
          }
      | _ \<Rightarrow> None)"

fun dpe_loop :: "library \<Rightarrow> json list \<Rightarrow> DPEDiagnostic list" where
  "dpe_loop L [] = []"
| "dpe_loop L (result # rest) =
     (case parse_dpe L result of
        None \<Rightarrow> dpe_loop L rest
      | Some diagnostic \<Rightarrow> diagnostic # dpe_loop L rest)"

definition dpe_params ::
  "library \<Rightarrow> string option \<Rightarrow> string option \<Rightarrow> string option \<Rightarrow> datetime option
     \<Rightarrow> int \<Rightarrow> (string \<times> param) list" where
  "dpe_params L code_postal' classe_consommation type_batiment' date_min limit =
     (let query_parts =
            str_filter ''Code_postal_(BAN):'' code_postal' []
            @ str_filter (''Classe_consommation_'' @ e_acute @ ''nergie:'') classe_consommation []
            @ str_filter (''Type_b'' @ a_circ @ ''timent:'') type_batiment' []
            @ date_filter L (''Date_'' @ e_acute @ ''tablissement_DPE:>='') date_min []
      in (''size'', PInt limit)
         # (if query_parts = [] then []
            else [(''q'', PStr (join '' AND '' query_parts))]))"

definition fetch_dpe_diagnostics ::
  "library \<Rightarrow> fetcher \<Rightarrow> string option \<Rightarrow> string option \<Rightarrow> string option
     \<Rightarrow> datetime option \<Rightarrow> int \<Rightarrow> (error + DPEDiagnostic list) \<times> cache_write list" where
  "fetch_dpe_diagnostics L f code_postal' classe_consommation type_batiment' date_min limit =
     (let params = dpe_params L code_postal' classe_consommation type_batiment' date_min limit;
          cache_key = generate_cache_key L ''dpe'' params;
          parse = (\<lambda>results writes.
                     (case json_slice results limit of
                        Inl e \<Rightarrow> (Inl e, writes)
                      | Inr rs \<Rightarrow> (Inr (dpe_loop L rs), writes)))
      in case get_from_cache f cache_key of
           Some cached_data \<Rightarrow> parse cached_data []
         | None \<Rightarrow>
             (case fetch_with_retry f ADEME_DPE_BASE_URL params MAX_RETRIES of
                Inl e \<Rightarrow> (Inl e, [])
              | Inr None \<Rightarrow> (Inr [], [])
              | Inr (Some response) \<Rightarrow>
                  (if response = [] then (Inr [], [])
                   else (case dict_get response ''results'' of
                           None \<Rightarrow> (Inr [], [])
                         | Some results \<Rightarrow>
                             parse results
                               (set_to_cache f cache_key results CACHE_TTL_DPE)))))"

subsection \<open>Cross-referencing\<close>

record enriched =
  transaction :: DVFTransaction
  dpe :: "DPEDiagnostic option"
  confidence :: string

text \<open>The lookup key: postal code, an underscore and \<open>int(surface / 10) * 10\<close>.\<close>

definition bucket :: "real \<Rightarrow> int" where
  "bucket surface = py_int (surface / 10) * 10"

definition surface_key :: "string \<Rightarrow> real \<Rightarrow> string" where
  "surface_key cp surface = cp @ ''_'' @ str_int (bucket surface)"

fun dpe_map_add ::
  "string \<Rightarrow> DPEDiagnostic \<Rightarrow> (string \<times> DPEDiagnostic list) list
     \<Rightarrow> (string \<times> DPEDiagnostic list) list" where
  "dpe_map_add key d [] = [(key, [d])]"
| "dpe_map_add key d ((k, ds) # m) =
     (if k = key then (k, ds @ [d]) # m else (k, ds) # dpe_map_add key d m)"

definition build_dpe_map :: "DPEDiagnostic list \<Rightarrow> (string \<times> DPEDiagnostic list) list" where
  "build_dpe_map diagnostics =
     fold (\<lambda>d m. dpe_map_add (surface_key (dpe_code_postal d) (surface_habitable d)) d m)
       diagnostics []"

text \<open>
  \<open>max(xs, key=lambda d: d.date_etablissement_dpe)\<close>: the first element is the
  candidate, and a later element replaces it when its date is greater.
\<close>

fun max_by_date :: "DPEDiagnostic \<Rightarrow> DPEDiagnostic list \<Rightarrow> error + DPEDiagnostic" where
  "max_by_date best [] = Inr best"
| "max_by_date best (d # ds) =
     (case datetime_gt (date_etablissement_dpe d) (date_etablissement_dpe best) of
        Inl e \<Rightarrow> Inl e
      | Inr True \<Rightarrow> max_by_date d ds
      | Inr False \<Rightarrow> max_by_date best ds)"

fun py_max_date :: "DPEDiagnostic list \<Rightarrow> error + DPEDiagnostic" where
  "py_max_date [] = Inl ValueError"
| "py_max_date (d # ds) = max_by_date d ds"

text \<open>
  The enrichment loop. A transaction whose surface is \<open>None\<close> or zero is
  falsy and is passed over by \<open>continue\<close>.
\<close>

fun enrich_loop ::
  "(string \<times> DPEDiagnostic list) list \<Rightarrow> DVFTransaction list \<Rightarrow> error + enriched list" where
  "enrich_loop dpe_map [] = Inr []"
| "enrich_loop dpe_map (txn # rest) =
     (case surface_reelle_bati txn of
        None \<Rightarrow> enrich_loop dpe_map rest
      | Some s \<Rightarrow>
          (if s = 0 then enrich_loop dpe_map rest
           else
             (let matching_dpes =
                    dict_get_default dpe_map (surface_key (code_postal txn) s) []
              in if matching_dpes \<noteq> []
                 then (case py_max_date matching_dpes of
                         Inl e \<Rightarrow> Inl e
                       | Inr most_recent_dpe \<Rightarrow>
                           (case enrich_loop dpe_map rest of
                              Inl e \<Rightarrow> Inl e
                            | Inr es \<Rightarrow>
                                Inr (\<lparr>transaction = txn, dpe = Some most_recent_dpe,
                                       confidence = ''medium''\<rparr> # es)))
                 else (case enrich_loop dpe_map rest of
                         Inl e \<Rightarrow> Inl e
                       | Inr es \<Rightarrow>
                           Inr (\<lparr>transaction = txn, dpe = None,
                                  confidence = ''none''\<rparr> # es)))))"

text \<open>
  \<open>cross_reference_dvf_dpe\<close>. \<open>now\<close> stands for \<open>datetime.now()\<close>. The two
  fetches are awaited together; they read different cache keys and different
  URLs, so their results are those of one fetch after the other. When both
  raise, the model reports the exception of the transaction fetch.
\<close>

definition cross_reference_dvf_dpe ::
  "library \<Rightarrow> fetcher \<Rightarrow> datetime \<Rightarrow> string \<Rightarrow> int
     \<Rightarrow> (error + enriched list) \<times> cache_write list" where
  "cross_reference_dvf_dpe L f now code_postal' date_range_days =
     (let date_min = now\<lparr>instant := instant now - date_range_days * 86400000000\<rparr>;
          dvf = fetch_dvf_transactions L f (Some code_postal') None (Some date_min) None None 200;
          dpes = fetch_dpe_diagnostics L f (Some code_postal') None None (Some date_min) 200;
          writes = snd dvf @ snd dpes
      in case fst dvf of
           Inl e \<Rightarrow> (Inl e, writes)
         | Inr transactions \<Rightarrow>
             (case fst dpes of
                Inl e \<Rightarrow> (Inl e, writes)
              | Inr diagnostics \<Rightarrow>
                  (enrich_loop (build_dpe_map diagnostics) transactions, writes)))"

subsection \<open>Notions used in the statements\<close>

text \<open>The keys that \<open>_anonymize_address\<close> takes out under a configuration.\<close>

definition removed_fields :: "GDPRConfig \<Rightarrow> string set" where
  "removed_fields cfg =
     (if include_exact_addresses cfg then {}
      else {''adresse_numero'', ''adresse_nom_voie''}
           \<union> (if anonymization_level cfg = ''commune'' then {''longitude'', ''latitude''}
              else {}))"

text \<open>
  Raw data with the street-level fields taken out of every record: of a field
  dict, of a record, of a record list, of a response, and of everything a
  fetcher can read (each cached value and each response body). Two fetchers
  that are equal after this differ at most in street-level address values.
\<close>

definition scrub_fields :: "json \<Rightarrow> json" where
  "scrub_fields v =
     (case v of
        JObj d \<Rightarrow> JObj (dict_pop ''adresse_nom_voie'' (dict_pop ''adresse_numero'' d))
      | _ \<Rightarrow> v)"

definition scrub_record :: "json \<Rightarrow> json" where
  "scrub_record v =
     (case v of
        JObj r \<Rightarrow> JObj (map (\<lambda>kv. if fst kv = ''fields'' then (fst kv, scrub_fields (snd kv))
                               else kv) r)
      | _ \<Rightarrow> v)"

definition scrub_records :: "json \<Rightarrow> json" where
  "scrub_records v = (case v of JArr rs \<Rightarrow> JArr (map scrub_record rs) | _ \<Rightarrow> v)"

definition scrub_response :: "dict \<Rightarrow> dict" where
  "scrub_response d =
     map (\<lambda>kv. if fst kv = ''records'' then (fst kv, scrub_records (snd kv)) else kv) d"

definition scrub_outcome :: "outcome \<Rightarrow> outcome" where
  "scrub_outcome out = (case out of Response d \<Rightarrow> Response (scrub_response d) | _ \<Rightarrow> out)"

definition street_scrubbed :: "fetcher \<Rightarrow> fetcher" where
  "street_scrubbed f =
     f\<lparr>session := map_option (\<lambda>http url params n. scrub_outcome (http url params n)) (session f),
       redis_client :=
         map_option (\<lambda>store k. map_option scrub_records (store k)) (redis_client f)\<rparr>"

text \<open>
  The ways an upstream call fails without an exception of another class: the
  first k attempts raise a ClientError; all three do; or the first answer, after
  fewer than three ClientErrors, lacks the envelope field.
\<close>

definition client_errors_before :: "(nat \<Rightarrow> outcome) \<Rightarrow> nat \<Rightarrow> bool" where
  "client_errors_before get k = (\<forall>n<k. get n = ClientError)"

definition upstream_fails :: "(nat \<Rightarrow> outcome) \<Rightarrow> string \<Rightarrow> bool" where
  "upstream_fails get field =
     (client_errors_before get 3
      \<or> (\<exists>k<3. client_errors_before get k
                \<and> (case get k of Response d \<Rightarrow> dict_get d field = None | _ \<Rightarrow> False)))"

definition upstream_raises :: "(nat \<Rightarrow> outcome) \<Rightarrow> bool" where
  "upstream_raises get = (\<exists>k<3. client_errors_before get k \<and> get k = OtherError)"

text \<open>
  A transaction the enrichment loop handles: its surface is present and not
  zero. The diagnostics that match a transaction: same postal code and same
  band of ten.
\<close>

definition eligible :: "DVFTransaction \<Rightarrow> bool" where
  "eligible t = (case surface_reelle_bati t of None \<Rightarrow> False | Some s \<Rightarrow> s \<noteq> 0)"

definition candidates :: "DPEDiagnostic list \<Rightarrow> DVFTransaction \<Rightarrow> DPEDiagnostic list" where
  "candidates diagnostics t =
     (case surface_reelle_bati t of
        None \<Rightarrow> []
      | Some s \<Rightarrow>
          filter (\<lambda>d. dpe_code_postal d = code_postal t
                      \<and> bucket (surface_habitable d) = bucket s) diagnostics)"

text \<open>
  What the enrichment loop makes of one eligible transaction: no diagnostic and
  confidence \<open>none\<close> when nothing matches, and otherwise a matching
  diagnostic whose issue date no other matching diagnostic exceeds, with
  confidence \<open>medium\<close>.
\<close>

definition entry_of :: "DPEDiagnostic list \<Rightarrow> enriched \<Rightarrow> bool" where
  "entry_of ds e =
     (if candidates ds (transaction e) = []
      then dpe e = None \<and> confidence e = ''none''
      else (\<exists>m\<in>set (candidates ds (transaction e)).
              dpe e = Some m \<and> confidence e = ''medium''
              \<and> (\<forall>d\<in>set (candidates ds (transaction e)).
                    instant (date_etablissement_dpe d)
                      \<le> instant (date_etablissement_dpe m))))"

subsection \<open>Example inputs\<close>

text \<open>
  A library instance to run the model on examples. Each validator accepts a
  value of the field's own JSON type and rejects every other value;
  \<open>fromisoformat\<close> knows the two dates the examples use. The three string
  functions are stand-ins: no statement below depends on what they return.
\<close>

definition sample_library :: library where
  "sample_library =
     \<lparr>str_validator = (\<lambda>v. case v of JStr s \<Rightarrow> Some s | _ \<Rightarrow> None),
        float_validator = (\<lambda>v. case v of JNum x \<Rightarrow> Some x | _ \<Rightarrow> None),
        int_validator =
          (\<lambda>v. case v of
                 JNum x \<Rightarrow> (if of_int \<lfloor>x\<rfloor> = x then Some \<lfloor>x\<rfloor> else None)
               | _ \<Rightarrow> None),
        float_of_str = (\<lambda>s. None),
        fromisoformat =
          (\<lambda>s. if s = ''2025-03-01'' then Some (datetime_ymd 2025 3 1)
               else if s = ''2025-06-01'' then Some (datetime_ymd 2025 6 1)
               else None),
        strftime_ymd = (\<lambda>t. ''2025-01-01''),
        urlencode = (\<lambda>ps. concat (map fst ps)),
        md5_hexdigest = (\<lambda>s. s)\<rparr>"

text \<open>A raw transaction record with the given street number and surface.\<close>

definition sample_dvf_record :: "string \<Rightarrow> json \<Rightarrow> json" where
  "sample_dvf_record numero surface =
     JObj [(''fields'',
            JObj [(''id_mutation'', JStr ''2025-1''),
                  (''date_mutation'', JStr ''2025-03-01''),
                  (''nature_mutation'', JStr ''Vente''),
                  (''valeur_fonciere'', JNum 300000),
                  (''adresse_numero'', JStr numero),
                  (''adresse_nom_voie'', JStr ''RUE LECOURBE''),
                  (''code_postal'', JStr ''75015''),
                  (''code_commune'', JStr ''75115''),
                  (''nom_commune'', JStr ''Paris''),
                  (''type_local'', JStr ''Appartement''),
                  (''surface_reelle_bati'', surface)])]"

text \<open>The transaction that record parses to once its address is removed.\<close>

definition sample_transaction :: "real option \<Rightarrow> DVFTransaction" where
  "sample_transaction surface =
     \<lparr>id_mutation = ''2025-1'', date_mutation = datetime_ymd 2025 3 1,
        nature_mutation = ''Vente'', valeur_fonciere = 300000,
        adresse_numero = None, adresse_nom_voie = None, code_postal = ''75015'',
        code_commune = ''75115'', nom_commune = ''Paris'', type_local = ''Appartement'',
        surface_reelle_bati = surface, nombre_pieces_principales = None,
        longitude = None, latitude = None\<rparr>"

text \<open>A raw diagnostic with the given number, issue date and surface.\<close>

definition sample_dpe_result :: "string \<Rightarrow> string \<Rightarrow> real \<Rightarrow> json" where
  "sample_dpe_result number issued surface =
     JObj [(''N'' @ degree @ ''DPE'', JStr number),
           (''Date_'' @ e_acute @ ''tablissement_DPE'', JStr issued),
           (''Classe_consommation_'' @ e_acute @ ''nergie'', JStr ''D''),
           (''Classe_estimation_GES'', JStr ''C''),
           (''Consommation_'' @ e_acute @ ''nergie'', JNum 200),
           (''Estimation_GES'', JNum 20),
           (''Code_postal_(BAN)'', JStr ''75015''),
           (''Type_b'' @ a_circ @ ''timent'', JStr ''appartement''),
           (''Surface_habitable_logement'', JNum surface),
           (''Type_'' @ e_acute @ ''nergie_principale_chauffage'', JStr ''gaz'')]"

definition sample_diagnostic :: "string \<Rightarrow> datetime \<Rightarrow> real \<Rightarrow> DPEDiagnostic" where
  "sample_diagnostic number issued surface =
     \<lparr>n_dpe = number, date_etablissement_dpe = issued,
        classe_consommation_energie = ''D'', classe_estimation_ges = ''C'',
        consommation_energie = 200, estimation_ges = 20, dpe_code_postal = ''75015'',
        type_batiment = ''appartement'', annee_construction = None,
        surface_habitable = surface, type_energie_principale_chauffage = ''gaz'',
        type_installation_chauffage = None, type_energie_n_1 = None,
        conso_chauffage = None, conso_ecs = None, conso_refroidissement = None,
        conso_eclairage = None, conso_auxiliaires = None\<rparr>"

text \<open>
  A connected fetcher with the default configuration and an empty cache, whose
  upstream answers every request at once with the given records and results.
\<close>

definition sample_fetcher :: "json list \<Rightarrow> json list \<Rightarrow> fetcher" where
  "sample_fetcher records results =
     \<lparr>gdpr_config = default_GDPRConfig,
        session =
          Some (\<lambda>url params n.
                  if url = DVF_BASE_URL then Response [(''records'', JArr records)]
                  else Response [(''results'', JArr results)]),
        redis_client = Some (\<lambda>k. None)\<rparr>"

text \<open>
  A connected fetcher with an empty cache whose upstream fails: the first two
  attempts raise a ClientError and every later attempt has the given outcome.
\<close>

definition failing_fetcher :: "outcome \<Rightarrow> fetcher" where
  "failing_fetcher third =
     \<lparr>gdpr_config = default_GDPRConfig,
        session = Some (\<lambda>url params n. if n < 2 then ClientError else third),
        redis_client = Some (\<lambda>k. None)\<rparr>"

section \<open>Properties of the calculator\<close>

lemma exp_up_numeral:
  "exp_up (numeral k) x = (if x < 2 then 0 else exp_up (pred_numeral k) (x / 2) + 1)"
  by (simp add: numeral_eq_Suc)

lemma exp_down_numeral:
  "exp_down (numeral k) x = (if 1 \<le> x then 0 else exp_down (pred_numeral k) (2 * x) - 1)"
  by (simp add: numeral_eq_Suc)

lemmas run_round64 =
  round64_def exponent_def pow2_def round_half_even_def Let_def exp_up_numeral exp_down_numeral

lemma float_19_10: "round64 (19 / 10) = Fin (4278419646001971 / 2251799813685248)"
  by (simp add: run_round64)

lemma float_95_100: "round64 (95 / 100) = Fin (4278419646001971 / 4503599627370496)"
  by (simp add: run_round64)

lemma float_5_100: "round64 (5 / 100) = Fin (3602879701896397 / 72057594037927936)"
  by (simp add: run_round64)

lemma float_1855_1000: "round64 (1855 / 1000) = Fin (4177088654386135 / 2251799813685248)"
  by (simp add: run_round64)

lemma float_50085_100: "round64 (50085 / 100) = Fin (4405523190172877 / 8796093022208)"
  by (simp add: run_round64)

lemma float_50185_100: "round64 (50185 / 100) = Fin (4414319283195085 / 8796093022208)"
  by (simp add: run_round64)

lemma example_total: "total_final_energy example_consumption = Fin 270"
  by (simp add: total_final_energy_def example_consumption_def run_round64)

lemma example_weighted_factor:
  "weighted_factor (round64 (95 / 100)) [(''gas'', round64 (5 / 100))]
     = Fin (4177088654386135 / 2251799813685248)"
  unfolding weighted_factor_def ELECTRICITY_FACTOR_2026_def
    float_19_10 float_95_100 float_5_100
  by (simp add: GAS_FACTOR_def run_round64)

lemma example_energy:
  "recalculate_with_2026_factor example_consumption (round64 (95 / 100))
       [(''gas'', round64 (5 / 100))]
     = Fin (4405523190172877 / 8796093022208)"
  unfolding recalculate_with_2026_factor_def example_total example_weighted_factor
  by (simp add: run_round64)

lemma classify_float_Fin:
  "classify_energy_performance_float (Fin x) = classify_energy_performance x"
  by (simp add: classify_energy_performance_float_def classify_energy_performance_def
      DPE_THRESHOLDS_def in_interval_float_def in_interval_def)

lemma import_module_raises: "import_module = Inl TypeError"
  by (simp add: import_module_def dataclass_def EnergyConsumption_fields_def
      DPE2026Result_fields_def)

lemma calculate_full_raises:
  "calculate_full_dpe_2026 b now oc ope cons ep other s rental = Inl TypeError"
  by (simp add: calculate_full_dpe_2026_def import_module_raises)

lemma RENTAL_BAN_DATES_get:
  "dict_get RENTAL_BAN_DATES c =
     (case c of G \<Rightarrow> Some (datetime_ymd 2025 1 1) | F \<Rightarrow> Some (datetime_ymd 2028 1 1)
      | E \<Rightarrow> Some (datetime_ymd 2034 1 1) | _ \<Rightarrow> None)"
  by (cases c) (simp_all add: dict_get_def RENTAL_BAN_DATES_def)

lemma ban_dates_increasing:
  "datetime_gt (datetime_ymd 2028 1 1) (datetime_ymd 2025 1 1) = Inr True
   \<and> datetime_gt (datetime_ymd 2034 1 1) (datetime_ymd 2028 1 1) = Inr True"
  by (simp add: datetime_gt_def datetime_ymd_def ymd2ord_def days_before_year_def
      days_before_month_def)


text \<open>
  Claim C1. The claim asks that the thresholds cut the non-negative reals into
  seven contiguous intervals and that a larger primary energy never gets a
  better class. The table's bounds are whole numbers with each interval closed
  at both ends, so a value strictly between 70 and 71 lies in no interval and
  reaches the fallback: 70.5 is classified G, the worst class, while the larger
  value 71 is classified B.
\<close>

theorem classify_gap_value_is_G:
  "classify_energy_performance (141 / 2) = G
   \<and> classify_energy_performance 71 = B
   \<and> (141 / 2 :: real) \<le> 71"
  by (simp add: classify_energy_performance_def DPE_THRESHOLDS_def in_interval_def)



text \<open>
  Claim C5, as stated, fails on its arithmetic: 270 times 1.855 is 500.85, and
  the float that the recalculation method computes for the example is the float
  500.85, which is not the float 501.85.
\<close>

theorem example_energy_is_not_501_85:
  "recalculate_with_2026_factor example_consumption (round64 (95 / 100))
       [(''gas'', round64 (5 / 100))]
     = round64 (50085 / 100)
   \<and> round64 (50085 / 100) \<noteq> round64 (50185 / 100)"
  unfolding example_energy float_50085_100 float_50185_100 by simp

text \<open>
  Claim C5, amended. For the consumption 200, 40, 5, 10, 15 and the mix
  electricity 0.95, gas 0.05, the methods of the engine compute, in float
  arithmetic: the total final energy 270.0, the weighted factor 1.855 and the
  recalculated primary energy 500.85 (each the float that the decimal denotes);
  that energy is classified G, a class for which the passoire test of step 3
  holds; for a rental and the class G the urgency is critical and the
  rental-ban date of step 5 is 2025-01-01.
\<close>

theorem example_scenario:
  "total_final_energy example_consumption = Fin 270
   \<and> weighted_factor (round64 (95 / 100)) [(''gas'', round64 (5 / 100))]
       = round64 (1855 / 1000)
   \<and> recalculate_with_2026_factor example_consumption (round64 (95 / 100))
         [(''gas'', round64 (5 / 100))]
       = round64 (50085 / 100)
   \<and> classify_energy_performance_float
         (recalculate_with_2026_factor example_consumption (round64 (95 / 100))
            [(''gas'', round64 (5 / 100))])
       = G
   \<and> is_passoire G
   \<and> calculate_renovation_urgency G True = CRITICAL
   \<and> rental_ban G True = Some (datetime_ymd 2025 1 1)"
proof -
  have g: "classify_energy_performance_float (Fin (4405523190172877 / 8796093022208)) = G"
    unfolding classify_float_Fin
    by (simp add: classify_energy_performance_def DPE_THRESHOLDS_def in_interval_def)
  have u: "calculate_renovation_urgency G True = CRITICAL"
    by (simp add: calculate_renovation_urgency_def)
  have b: "rental_ban G True = Some (datetime_ymd 2025 1 1)"
    by (simp add: rental_ban_def RENTAL_BAN_DATES_get)
  have p: "is_passoire G"
    by (simp add: is_passoire_def)
  from g p u b show ?thesis
    unfolding example_total example_weighted_factor example_energy
      float_1855_1000 float_50085_100
    by simp
qed

text \<open>
  Claim C6. No recalculation produces a result, so no result carries a
  rental-ban date. The dataclass \<open>DPE2026Result\<close> declares the fields
  \<open>priority_renovations\<close> and \<open>estimated_renovation_cost_range\<close>, which
  have no default, after \<open>ai_transparency_badge\<close> and
  \<open>human_verification_required\<close>, which have one: creating the class raises
  TypeError, the module stops there, and every call of the engine, the one of
  the module's own example included, ends with that TypeError. Step 5 of the
  method is written as the claim says: for a rental the date of the table,
  2025-01-01 for G, 2028-01-01 for F and 2034-01-01 for E, each later than the
  one before, and no date otherwise.
\<close>

theorem no_recalculation_returns_a_result:
  "calculate_full_dpe_2026 b now oc ope cons ep other s rental = Inl TypeError
   \<and> calculate_full_dpe_2026 True ''2026-01-15'' ''F'' (Fin 621) example_consumption
         (round64 (95 / 100)) [(''gas'', round64 (5 / 100))] (Fin 65) True
       = Inl TypeError
   \<and> dataclass DPE2026Result_fields = Inl TypeError
   \<and> rental_ban c is_rental
       = (if is_rental
          then (case c of
                  G \<Rightarrow> Some (datetime_ymd 2025 1 1)
                | F \<Rightarrow> Some (datetime_ymd 2028 1 1)
                | E \<Rightarrow> Some (datetime_ymd 2034 1 1)
                | _ \<Rightarrow> None)
          else None)
   \<and> datetime_gt (datetime_ymd 2028 1 1) (datetime_ymd 2025 1 1) = Inr True
   \<and> datetime_gt (datetime_ymd 2034 1 1) (datetime_ymd 2028 1 1) = Inr True"
proof -
  have d: "dataclass DPE2026Result_fields = Inl TypeError"
    by (simp add: dataclass_def DPE2026Result_fields_def)
  have t: "rental_ban c is_rental
       = (if is_rental
          then (case c of
                  G \<Rightarrow> Some (datetime_ymd 2025 1 1)
                | F \<Rightarrow> Some (datetime_ymd 2028 1 1)
                | E \<Rightarrow> Some (datetime_ymd 2034 1 1)
                | _ \<Rightarrow> None)
          else None)"
    by (simp add: rental_ban_def RENTAL_BAN_DATES_get)
  from d t ban_dates_increasing show ?thesis
    by (simp only: calculate_full_raises simp_thms)
qed

section \<open>Properties of the fetcher\<close>

lemma dict_get_pop: "dict_get (dict_pop k d) k' = (if k' = k then None else dict_get d k')"
  by (induction d) (auto simp: dict_get_def dict_pop_def)

lemma anonymize_address_dict:
  "anonymize_address cfg (JObj d)
     = Inr (JObj (filter (\<lambda>kv. fst kv \<notin> removed_fields cfg) d))"
  by (auto simp: anonymize_address_def removed_fields_def dict_pop_def Let_def
      intro!: filter_cong)

lemma dict_get_filter:
  "dict_get (filter (\<lambda>kv. fst kv \<notin> S) d) k = (if k \<in> S then None else dict_get d k)"
  by (induction d) (auto simp: dict_get_def)

text \<open>
  Claim C10. On a record (a dict), \<open>_anonymize_address\<close> keeps exactly the
  entries whose key is not removed, in their order and with their values: with
  \<open>include_exact_addresses\<close> false the removed keys are \<open>adresse_numero\<close> and
  \<open>adresse_nom_voie\<close>, and also \<open>longitude\<close> and \<open>latitude\<close> if and only
  if the anonymization level is \<open>commune\<close>; with it true nothing is removed
  and the record is returned unchanged.
\<close>

theorem anonymize_address_frame:
  "anonymize_address cfg (JObj d)
     = Inr (JObj (filter (\<lambda>kv. fst kv \<notin> removed_fields cfg) d))
   \<and> removed_fields cfg =
       (if include_exact_addresses cfg then {}
        else if anonymization_level cfg = ''commune''
        then {''adresse_numero'', ''adresse_nom_voie'', ''longitude'', ''latitude''}
        else {''adresse_numero'', ''adresse_nom_voie''})
   \<and> (\<forall>d'. anonymize_address cfg (JObj d) = Inr (JObj d') \<longrightarrow>
         (\<forall>k. dict_get d' k = (if k \<in> removed_fields cfg then None else dict_get d k)))
   \<and> (include_exact_addresses cfg \<longrightarrow> anonymize_address cfg (JObj d) = Inr (JObj d))"
  by (auto simp: anonymize_address_dict dict_get_filter) (auto simp: removed_fields_def anonymize_address_def)

theorem anonymize_address_frame_witness:
  "anonymize_address (default_GDPRConfig\<lparr>anonymization_level := ''commune''\<rparr>)
       (JObj [(''adresse_numero'', JStr ''12''), (''code_postal'', JStr ''75015''),
              (''longitude'', JNum 2), (''adresse_nom_voie'', JStr ''RUE LECOURBE'')])
     = Inr (JObj [(''code_postal'', JStr ''75015'')])
   \<and> anonymize_address default_GDPRConfig
       (JObj [(''adresse_numero'', JStr ''12''), (''code_postal'', JStr ''75015''),
              (''longitude'', JNum 2), (''adresse_nom_voie'', JStr ''RUE LECOURBE'')])
     = Inr (JObj [(''code_postal'', JStr ''75015''), (''longitude'', JNum 2)])
   \<and> anonymize_address (default_GDPRConfig\<lparr>include_exact_addresses := True\<rparr>)
       (JObj [(''adresse_numero'', JStr ''12''), (''code_postal'', JStr ''75015'')])
     = Inr (JObj [(''adresse_numero'', JStr ''12''), (''code_postal'', JStr ''75015'')])"
proof -
  let ?d = "[(''adresse_numero'', JStr ''12''), (''code_postal'', JStr ''75015''),
             (''longitude'', JNum 2), (''adresse_nom_voie'', JStr ''RUE LECOURBE'')]"
  from anonymize_address_frame
         [of "default_GDPRConfig\<lparr>anonymization_level := ''commune''\<rparr>" ?d]
  have a: "anonymize_address (default_GDPRConfig\<lparr>anonymization_level := ''commune''\<rparr>)
             (JObj ?d) = Inr (JObj [(''code_postal'', JStr ''75015'')])"
    by (simp add: default_GDPRConfig_def)
  from anonymize_address_frame [of default_GDPRConfig ?d]
  have b: "anonymize_address default_GDPRConfig (JObj ?d)
             = Inr (JObj [(''code_postal'', JStr ''75015''), (''longitude'', JNum 2)])"
    by (simp add: default_GDPRConfig_def)
  from anonymize_address_frame
         [of "default_GDPRConfig\<lparr>include_exact_addresses := True\<rparr>"
             "[(''adresse_numero'', JStr ''12''), (''code_postal'', JStr ''75015'')]"]
  have c: "anonymize_address (default_GDPRConfig\<lparr>include_exact_addresses := True\<rparr>)
       (JObj [(''adresse_numero'', JStr ''12''), (''code_postal'', JStr ''75015'')])
     = Inr (JObj [(''adresse_numero'', JStr ''12''), (''code_postal'', JStr ''75015'')])"
    by simp
  from a b c show ?thesis by blast
qed

lemma anonymize_scrub:
  "\<not> include_exact_addresses cfg \<Longrightarrow>
     anonymize_address cfg (scrub_fields v) = anonymize_address cfg v"
  by (cases v) (auto simp: anonymize_address_def scrub_fields_def dict_pop_def Let_def
      intro!: filter_cong)

lemma scrub_fields_empty: "scrub_fields (JObj []) = JObj []"
  by (simp add: scrub_fields_def dict_pop_def)

lemma fields_of_scrub_record:
  "dict_get_default
       (map (\<lambda>kv. if fst kv = ''fields'' then (fst kv, scrub_fields (snd kv)) else kv) r)
       ''fields'' (JObj [])
     = scrub_fields (dict_get_default r ''fields'' (JObj []))"
  by (induction r) (auto simp: dict_get_default_def dict_get_def scrub_fields_empty)

lemma scrub_record_simps:
  "scrub_record (JObj r)
     = JObj (map (\<lambda>kv. if fst kv = ''fields'' then (fst kv, scrub_fields (snd kv)) else kv) r)"
  "scrub_record JNull = JNull"
  "scrub_record (JBool b) = JBool b"
  "scrub_record (JNum x) = JNum x"
  "scrub_record (JStr s) = JStr s"
  "scrub_record (JArr xs) = JArr xs"
  by (simp_all add: scrub_record_def)

lemma dvf_loop_scrub:
  "\<not> include_exact_addresses cfg \<Longrightarrow>
     dvf_loop L cfg (map scrub_record rs) = dvf_loop L cfg rs"
proof (induction rs)
  case Nil
  show ?case by simp
next
  case (Cons r rs)
  then show ?case
    by (cases r)
       (simp_all add: scrub_record_simps fields_of_scrub_record anonymize_scrub
          cong: sum.case_cong)
qed

lemma py_take_map: "py_take n (map g xs) = map g (py_take n xs)"
  by (simp add: py_take_def take_map)

lemma json_slice_scrub:
  "json_slice (scrub_records v) limit
     = (case json_slice v limit of Inl e \<Rightarrow> Inl e | Inr rs \<Rightarrow> Inr (map scrub_record rs))"
  by (cases v)
     (simp_all add: json_slice_def scrub_records_def py_take_map scrub_record_simps comp_def)

lemma retry_loop_scrub:
  "retry_loop (\<lambda>n. scrub_outcome (get n)) m a k
     = (case retry_loop get m a k of
          Inl e \<Rightarrow> Inl e | Inr r \<Rightarrow> Inr (map_option scrub_response r))"
  by (induction get m a k rule: retry_loop.induct)
     (auto simp: scrub_outcome_def split: outcome.splits)

lemma fetch_with_retry_scrub:
  "fetch_with_retry (street_scrubbed f) url params m
     = (case fetch_with_retry f url params m of
          Inl e \<Rightarrow> Inl e | Inr r \<Rightarrow> Inr (map_option scrub_response r))"
  by (cases "session f") (simp_all add: fetch_with_retry_def street_scrubbed_def retry_loop_scrub)

lemma get_from_cache_scrub:
  "get_from_cache (street_scrubbed f) k = map_option scrub_records (get_from_cache f k)"
  by (cases "redis_client f") (simp_all add: get_from_cache_def street_scrubbed_def)

lemma records_of_scrub_response:
  "dict_get (scrub_response d) ''records'' = map_option scrub_records (dict_get d ''records'')"
  by (induction d) (auto simp: dict_get_def scrub_response_def)

lemma scrub_response_Nil: "(scrub_response d = []) = (d = [])"
  by (simp add: scrub_response_def)

lemma gdpr_config_scrubbed: "gdpr_config (street_scrubbed f) = gdpr_config f"
  by (simp add: street_scrubbed_def)

lemma parse_scrub:
  assumes "\<not> include_exact_addresses cfg"
  shows "fst (case json_slice (scrub_records v) limit of
                Inl e \<Rightarrow> (Inl e, w')
              | Inr rs \<Rightarrow> (dvf_loop L cfg rs, w'))
         = fst (case json_slice v limit of
                Inl e \<Rightarrow> (Inl e, w)
              | Inr rs \<Rightarrow> (dvf_loop L cfg rs, w))"
  using assms by (simp add: json_slice_scrub dvf_loop_scrub split: sum.splits)

lemma fetch_dvf_scrubbed:
  assumes "\<not> include_exact_addresses (gdpr_config f)"
  shows "fst (fetch_dvf_transactions L (street_scrubbed f) cp cc dmin dmax ty limit)
         = fst (fetch_dvf_transactions L f cp cc dmin dmax ty limit)"
  using assms
  by (auto simp: fetch_dvf_transactions_def Let_def get_from_cache_scrub fetch_with_retry_scrub
      records_of_scrub_response scrub_response_Nil gdpr_config_scrubbed parse_scrub
      json_slice_scrub dvf_loop_scrub
      split: option.splits sum.splits)


lemma optional_field_None: "optional_field v None = Some None"
  by (simp add: optional_field_def)

lemma parse_dvf_no_address:
  assumes "parse_dvf L (JObj d) = Some t"
    and "dict_get d ''adresse_numero'' = None"
    and "dict_get d ''adresse_nom_voie'' = None"
  shows "adresse_numero t = None \<and> adresse_nom_voie t = None"
  using assms
  by (auto simp: parse_dvf_def optional_field_None split: Option.bind_splits)

lemma anonymize_address_Inr:
  assumes "\<not> include_exact_addresses cfg"
    and "anonymize_address cfg v = Inr w"
  shows "\<exists>d. w = JObj d \<and> dict_get d ''adresse_numero'' = None
           \<and> dict_get d ''adresse_nom_voie'' = None"
proof (cases v)
  case (JObj d)
  from assms(1) have "''adresse_numero'' \<in> removed_fields cfg"
    and "''adresse_nom_voie'' \<in> removed_fields cfg"
    by (simp_all add: removed_fields_def)
  with assms(2) JObj show ?thesis
    by (auto simp: anonymize_address_dict dict_get_filter)
qed (use assms in \<open>simp_all add: anonymize_address_def\<close>)

lemma dvf_loop_no_address:
  assumes "\<not> include_exact_addresses cfg"
  shows "dvf_loop L cfg rs = Inr ts \<Longrightarrow>
           \<forall>t\<in>set ts. adresse_numero t = None \<and> adresse_nom_voie t = None"
proof (induction rs arbitrary: ts)
  case Nil
  then show ?case by simp
next
  case (Cons r rs)
  from Cons.prems obtain x where r: "r = JObj x" by (cases r) simp_all
  from Cons.prems r obtain w where
    w: "anonymize_address cfg (dict_get_default x ''fields'' (JObj [])) = Inr w"
    by (auto split: sum.splits)
  from Cons.prems r w obtain ts' where
    ts': "dvf_loop L cfg rs = Inr ts'"
    and ts: "ts = (case parse_dvf L w of None \<Rightarrow> ts' | Some t \<Rightarrow> t # ts')"
    by (auto split: sum.splits)
  from anonymize_address_Inr [OF assms w] obtain d where
    d: "w = JObj d" "dict_get d ''adresse_numero'' = None"
       "dict_get d ''adresse_nom_voie'' = None" by blast
  from Cons.IH [OF ts'] have ih:
    "\<forall>t\<in>set ts'. adresse_numero t = None \<and> adresse_nom_voie t = None" .
  show ?case
  proof (cases "parse_dvf L w")
    case None
    with ts ih show ?thesis by simp
  next
    case (Some t)
    with d parse_dvf_no_address [of L d t]
    have "adresse_numero t = None \<and> adresse_nom_voie t = None" by simp
    with Some ts ih show ?thesis by simp
  qed
qed

lemma fetch_dvf_result:
  assumes "fst (fetch_dvf_transactions L f cp cc dmin dmax ty limit) = Inr ts"
  shows "ts = [] \<or> (\<exists>rs. dvf_loop L (gdpr_config f) rs = Inr ts)"
  using assms
  by (auto simp: fetch_dvf_transactions_def Let_def split: option.splits sum.splits if_splits)

lemma sample_run:
  "fetch_dvf_transactions sample_library (sample_fetcher [sample_dvf_record ''12'' (JNum 64)] [])
      (Some ''75015'') None None None None 100
     = (Inr [sample_transaction (Some 64)],
        [(''ecoimmo:dvf:limitwhe'', 86400, JArr [sample_dvf_record ''12'' (JNum 64)])])"
  by (simp add: fetch_dvf_transactions_def Let_def sample_fetcher_def get_from_cache_def
      fetch_with_retry_def MAX_RETRIES_def eval_nat_numeral DVF_BASE_URL_def dict_get_def
      json_slice_def py_take_def sample_dvf_record_def default_GDPRConfig_def
      anonymize_address_def dict_get_default_def dict_pop_def parse_dvf_def
      sample_library_def parse_datetime_def replace_Z_def py_float_def optional_field_def
      sample_transaction_def set_to_cache_def CACHE_TTL_DVF_def generate_cache_key_def
      dvf_params_def str_filter_def date_filter_def quote_def)


text \<open>
  Claim C9. With \<open>include_exact_addresses\<close> false, every transaction that
  \<open>fetch_dvf_transactions\<close> returns has no street number and no street name,
  whatever the raw records held; and two fetchers that differ only in the
  street-level values of their raw records (cached or upstream) give the same
  outcome.
\<close>

theorem returned_transactions_have_no_street_address:
  assumes "\<not> include_exact_addresses (gdpr_config f)"
  shows "(\<forall>ts. fst (fetch_dvf_transactions L f cp cc dmin dmax ty limit) = Inr ts \<longrightarrow>
            (\<forall>t\<in>set ts. adresse_numero t = None \<and> adresse_nom_voie t = None))
       \<and> (\<forall>f'. street_scrubbed f' = street_scrubbed f \<longrightarrow>
            fst (fetch_dvf_transactions L f' cp cc dmin dmax ty limit)
              = fst (fetch_dvf_transactions L f cp cc dmin dmax ty limit))"
proof (intro conjI allI impI)
  fix ts assume "fst (fetch_dvf_transactions L f cp cc dmin dmax ty limit) = Inr ts"
  from fetch_dvf_result [OF this] dvf_loop_no_address [OF assms]
  show "\<forall>t\<in>set ts. adresse_numero t = None \<and> adresse_nom_voie t = None"
    by auto
next
  fix f' assume eq: "street_scrubbed f' = street_scrubbed f"
  then have "gdpr_config f' = gdpr_config f"
    using gdpr_config_scrubbed [of f] gdpr_config_scrubbed [of f'] by simp
  with assms have "\<not> include_exact_addresses (gdpr_config f')" by simp
  from fetch_dvf_scrubbed [OF this] fetch_dvf_scrubbed [OF assms] eq
  show "fst (fetch_dvf_transactions L f' cp cc dmin dmax ty limit)
          = fst (fetch_dvf_transactions L f cp cc dmin dmax ty limit)"
    by simp
qed

lemma sample_scrubbed:
  "street_scrubbed (sample_fetcher [sample_dvf_record ''99'' (JNum 64)] [])
     = street_scrubbed (sample_fetcher [sample_dvf_record ''12'' (JNum 64)] [])"
  by (simp add: street_scrubbed_def sample_fetcher_def scrub_outcome_def scrub_response_def
      scrub_records_def scrub_record_def scrub_fields_def sample_dvf_record_def dict_pop_def
      fun_eq_iff)

theorem returned_transactions_have_no_street_address_witness:
  "\<not> include_exact_addresses
        (gdpr_config (sample_fetcher [sample_dvf_record ''12'' (JNum 64)] []))
   \<and> fst (fetch_dvf_transactions sample_library
            (sample_fetcher [sample_dvf_record ''12'' (JNum 64)] [])
            (Some ''75015'') None None None None 100) = Inr [sample_transaction (Some 64)]
   \<and> adresse_numero (sample_transaction (Some 64)) = None
   \<and> adresse_nom_voie (sample_transaction (Some 64)) = None
   \<and> fst (fetch_dvf_transactions sample_library
            (sample_fetcher [sample_dvf_record ''99'' (JNum 64)] [])
            (Some ''75015'') None None None None 100) = Inr [sample_transaction (Some 64)]"
proof -
  let ?f = "sample_fetcher [sample_dvf_record ''12'' (JNum 64)] []"
  have h: "\<not> include_exact_addresses (gdpr_config ?f)"
    by (simp add: sample_fetcher_def default_GDPRConfig_def)
  have r: "fst (fetch_dvf_transactions sample_library ?f (Some ''75015'') None None None None 100)
             = Inr [sample_transaction (Some 64)]"
    by (simp add: sample_run)
  note t = returned_transactions_have_no_street_address [OF h, of sample_library "Some ''75015''" None None None None 100]
  from t r have a: "adresse_numero (sample_transaction (Some 64)) = None
      \<and> adresse_nom_voie (sample_transaction (Some 64)) = None" by simp
  from t sample_scrubbed r
  have "fst (fetch_dvf_transactions sample_library
            (sample_fetcher [sample_dvf_record ''99'' (JNum 64)] [])
            (Some ''75015'') None None None None 100) = Inr [sample_transaction (Some 64)]"
    by simp
  with h r a show ?thesis by blast
qed





subsection \<open>Failing upstream calls\<close>

lemma retry_loop_three:
  "retry_loop get 3 0 (Suc (Suc (Suc 0))) =
     (case get 0 of
        Response d \<Rightarrow> Inr (Some d)
      | OtherError \<Rightarrow> Inl UpstreamException
      | ClientError \<Rightarrow>
          (case get 1 of
             Response d \<Rightarrow> Inr (Some d)
           | OtherError \<Rightarrow> Inl UpstreamException
           | ClientError \<Rightarrow>
               (case get 2 of
                  Response d \<Rightarrow> Inr (Some d)
                | OtherError \<Rightarrow> Inl UpstreamException
                | ClientError \<Rightarrow> Inr None)))"
  by (simp add: RETRY_BACKOFF_SECONDS_def eval_nat_numeral split: outcome.splits)

lemma fetch_with_retry_three:
  "session f = Some http \<Longrightarrow>
     fetch_with_retry f url params MAX_RETRIES
       = retry_loop (http url params) 3 0 (Suc (Suc (Suc 0)))"
  by (simp add: fetch_with_retry_def MAX_RETRIES_def eval_nat_numeral)

lemma less_three: "(k::nat) < 3 \<Longrightarrow> k = 0 \<or> k = 1 \<or> k = 2"
  by arith

lemma retry_all_client_errors:
  "client_errors_before get 3 \<Longrightarrow> retry_loop get 3 0 (Suc (Suc (Suc 0))) = Inr None"
  unfolding retry_loop_three by (simp add: client_errors_before_def)

lemma retry_first_answer:
  assumes "k < 3" "client_errors_before get k" "get k = Response d"
  shows "retry_loop get 3 0 (Suc (Suc (Suc 0))) = Inr (Some d)"
  using less_three [OF assms(1)] assms(2,3)
  unfolding retry_loop_three by (auto simp: client_errors_before_def)

lemma retry_other_error:
  assumes "k < 3" "client_errors_before get k" "get k = OtherError"
  shows "retry_loop get 3 0 (Suc (Suc (Suc 0))) = Inl UpstreamException"
  using less_three [OF assms(1)] assms(2,3)
  unfolding retry_loop_three by (auto simp: client_errors_before_def)

lemma fetch_with_retry_fails:
  assumes "session f = Some http" and "upstream_fails (http url params) field"
  shows "fetch_with_retry f url params MAX_RETRIES = Inr None
         \<or> (\<exists>d. fetch_with_retry f url params MAX_RETRIES = Inr (Some d)
                \<and> dict_get d field = None)"
proof (cases "client_errors_before (http url params) 3")
  case True
  then show ?thesis
    unfolding fetch_with_retry_three [OF assms(1)] by (rule disjI1 [OF retry_all_client_errors])
next
  case False
  with assms(2) obtain k where k: "k < 3" "client_errors_before (http url params) k"
    "case http url params k of Response d \<Rightarrow> dict_get d field = None | _ \<Rightarrow> False"
    by (auto simp: upstream_fails_def)
  then obtain d where "http url params k = Response d" "dict_get d field = None"
    by (cases "http url params k") auto
  with k show ?thesis
    unfolding fetch_with_retry_three [OF assms(1)] using retry_first_answer by blast
qed

lemma fetch_with_retry_raises:
  assumes "session f = Some http" and "upstream_raises (http url params)"
  shows "fetch_with_retry f url params MAX_RETRIES = Inl UpstreamException"
proof -
  from assms(2) obtain k where "k < 3" "client_errors_before (http url params) k"
    "http url params k = OtherError"
    by (auto simp: upstream_raises_def)
  then show ?thesis
    unfolding fetch_with_retry_three [OF assms(1)] by (rule retry_other_error)
qed

lemma client_errors_give_empty_list:
  fixes L f http cp cc dmin dmax ty limit classe tb
  defines "pdvf \<equiv> dvf_params L cp cc dmin dmax ty limit"
  defines "pdpe \<equiv> dpe_params L cp classe tb dmin limit"
  assumes "session f = Some http"
  shows "(get_from_cache f (generate_cache_key L ''dvf'' pdvf) = None
            \<and> upstream_fails (http DVF_BASE_URL pdvf) ''records''
          \<longrightarrow> fetch_dvf_transactions L f cp cc dmin dmax ty limit = (Inr [], []))
       \<and> (get_from_cache f (generate_cache_key L ''dpe'' pdpe) = None
            \<and> upstream_fails (http ADEME_DPE_BASE_URL pdpe) ''results''
          \<longrightarrow> fetch_dpe_diagnostics L f cp classe tb dmin limit = (Inr [], []))"
proof (intro conjI impI)
  assume a: "get_from_cache f (generate_cache_key L ''dvf'' pdvf) = None
            \<and> upstream_fails (http DVF_BASE_URL pdvf) ''records''"
  with fetch_with_retry_fails [OF assms(3), of DVF_BASE_URL pdvf "''records''"]
  have "fetch_with_retry f DVF_BASE_URL pdvf MAX_RETRIES = Inr None
         \<or> (\<exists>d. fetch_with_retry f DVF_BASE_URL pdvf MAX_RETRIES = Inr (Some d)
                \<and> dict_get d ''records'' = None)" by blast
  with a show "fetch_dvf_transactions L f cp cc dmin dmax ty limit = (Inr [], [])"
    unfolding pdvf_def by (auto simp: fetch_dvf_transactions_def Let_def)
next
  assume a: "get_from_cache f (generate_cache_key L ''dpe'' pdpe) = None
            \<and> upstream_fails (http ADEME_DPE_BASE_URL pdpe) ''results''"
  with fetch_with_retry_fails [OF assms(3), of ADEME_DPE_BASE_URL pdpe "''results''"]
  have "fetch_with_retry f ADEME_DPE_BASE_URL pdpe MAX_RETRIES = Inr None
         \<or> (\<exists>d. fetch_with_retry f ADEME_DPE_BASE_URL pdpe MAX_RETRIES = Inr (Some d)
                \<and> dict_get d ''results'' = None)" by blast
  with a show "fetch_dpe_diagnostics L f cp classe tb dmin limit = (Inr [], [])"
    unfolding pdpe_def by (auto simp: fetch_dpe_diagnostics_def Let_def)
qed

lemma other_exception_leaves_the_fetcher:
  fixes L f http cp cc dmin dmax ty limit classe tb
  defines "pdvf \<equiv> dvf_params L cp cc dmin dmax ty limit"
  defines "pdpe \<equiv> dpe_params L cp classe tb dmin limit"
  assumes "session f = Some http"
  shows "(get_from_cache f (generate_cache_key L ''dvf'' pdvf) = None
            \<and> upstream_raises (http DVF_BASE_URL pdvf)
          \<longrightarrow> fetch_dvf_transactions L f cp cc dmin dmax ty limit
                = (Inl UpstreamException, []))
       \<and> (get_from_cache f (generate_cache_key L ''dpe'' pdpe) = None
            \<and> upstream_raises (http ADEME_DPE_BASE_URL pdpe)
          \<longrightarrow> fetch_dpe_diagnostics L f cp classe tb dmin limit
                = (Inl UpstreamException, []))"
proof (intro conjI impI)
  assume a: "get_from_cache f (generate_cache_key L ''dvf'' pdvf) = None
            \<and> upstream_raises (http DVF_BASE_URL pdvf)"
  with fetch_with_retry_raises [OF assms(3), of DVF_BASE_URL pdvf]
  have "fetch_with_retry f DVF_BASE_URL pdvf MAX_RETRIES = Inl UpstreamException" by blast
  with a show "fetch_dvf_transactions L f cp cc dmin dmax ty limit
                 = (Inl UpstreamException, [])"
    unfolding pdvf_def by (auto simp: fetch_dvf_transactions_def Let_def)
next
  assume a: "get_from_cache f (generate_cache_key L ''dpe'' pdpe) = None
            \<and> upstream_raises (http ADEME_DPE_BASE_URL pdpe)"
  with fetch_with_retry_raises [OF assms(3), of ADEME_DPE_BASE_URL pdpe]
  have "fetch_with_retry f ADEME_DPE_BASE_URL pdpe MAX_RETRIES = Inl UpstreamException"
    by blast
  with a show "fetch_dpe_diagnostics L f cp classe tb dmin limit
                 = (Inl UpstreamException, [])"
    unfolding pdpe_def by (auto simp: fetch_dpe_diagnostics_def Let_def)
qed

text \<open>
  Claim C8. The claim and the docstring of \<open>_fetch_with_retry\<close> (JSON response
  or None if all retries failed) say that a fetch whose attempts all fail gives
  no data and no error, and \<open>connect\<close> gives the session a total timeout of 30
  seconds; but the retry loop catches \<open>aiohttp.ClientError\<close> only. An attempt
  that raises an exception of another class, such as the
  \<open>asyncio.TimeoutError\<close> of the session's total timeout or the ValueError of
  \<open>response.json()\<close> on a body that is not JSON, is neither retried nor turned
  into \<open>None\<close>. With a connected session and an empty cache, when the first
  two attempts raise a ClientError and the third raises such an exception, all
  three attempts have failed and both fetchers raise instead of returning the
  empty list.
\<close>

theorem other_exception_propagates:
  "fst (fetch_dvf_transactions sample_library (failing_fetcher OtherError)
          (Some ''75015'') None None None None 100) = Inl UpstreamException
   \<and> fst (fetch_dpe_diagnostics sample_library (failing_fetcher OtherError)
          (Some ''75015'') None None None 100) = Inl UpstreamException"
  by (simp add: fetch_dvf_transactions_def fetch_dpe_diagnostics_def Let_def
      failing_fetcher_def get_from_cache_def fetch_with_retry_def MAX_RETRIES_def
      RETRY_BACKOFF_SECONDS_def eval_nat_numeral)

subsection \<open>Cross-referencing\<close>

lemma char_of_digit_inj:
  assumes "a < 10" "b < 10" "char_of (48 + a :: nat) = char_of (48 + b)"
  shows "a = b"
proof -
  from assms(3) have "of_char (char_of (48 + a :: nat)) = (of_char (char_of (48 + b)) :: nat)"
    by simp
  with assms(1,2) show ?thesis by (simp add: of_char_of)
qed

lemma str_nat_small: "n < 10 \<Longrightarrow> str_nat n = [char_of (48 + n)]"
  by (subst str_nat.simps) simp

lemma str_nat_big:
  "\<not> n < 10 \<Longrightarrow> str_nat n = str_nat (n div 10) @ [char_of (48 + n mod 10)]"
  by (subst str_nat.simps) simp

lemma str_nat_nonempty: "str_nat n \<noteq> []"
  by (cases "n < 10") (simp_all add: str_nat_small str_nat_big)

lemma str_nat_length: "(length (str_nat n) = 1) = (n < 10)"
proof (cases "n < 10")
  case True
  then show ?thesis by (simp add: str_nat_small)
next
  case False
  moreover have "0 < length (str_nat (n div 10))" using str_nat_nonempty by blast
  ultimately show ?thesis by (simp add: str_nat_big)
qed

lemma str_nat_inj: "str_nat m = str_nat n \<Longrightarrow> m = n"
proof (induction m arbitrary: n rule: str_nat.induct)
  case (1 m)
  show ?case
  proof (cases "m < 10")
    case True
    with "1.prems" str_nat_length [of m] str_nat_length [of n] have n: "n < 10" by simp
    with True "1.prems" have "char_of (48 + m) = char_of (48 + n)"
      by (simp add: str_nat_small)
    with True n show ?thesis by (rule char_of_digit_inj)
  next
    case False
    with "1.prems" str_nat_length [of m] str_nat_length [of n] have n: "\<not> n < 10" by simp
    with False "1.prems" have
      a: "str_nat (m div 10) = str_nat (n div 10)"
      and b: "char_of (48 + m mod 10) = char_of (48 + n mod 10)"
      by (simp_all add: str_nat_big)
    from "1.IH" [OF False a] have "m div 10 = n div 10" .
    moreover from b have "m mod 10 = n mod 10"
      by (rule char_of_digit_inj [rotated 2]) simp_all
    ultimately show ?thesis by (metis div_mult_mod_eq)
  qed
qed

lemma str_nat_chars:
  "c \<in> set (str_nat n) \<Longrightarrow> 48 \<le> (of_char c :: nat) \<and> (of_char c :: nat) < 58"
proof (induction n rule: str_nat.induct)
  case (1 n)
  show ?case
  proof (cases "n < 10")
    case True
    with "1.prems" show ?thesis by (simp add: str_nat_small of_char_of)
  next
    case False
    with "1.prems" have "c \<in> set (str_nat (n div 10)) \<or> c = char_of (48 + n mod 10)"
      by (auto simp: str_nat_big)
    with "1.IH" [OF False] show ?thesis by (auto simp: of_char_of)
  qed
qed

lemma str_nat_no_underscore: "CHR ''_'' \<notin> set (str_nat n)"
  using str_nat_chars [of "CHR ''_''" n] by auto

lemma str_nat_no_minus: "CHR ''-'' \<notin> set (str_nat n)"
  using str_nat_chars [of "CHR ''-''" n] by auto

lemma str_int_no_underscore: "CHR ''_'' \<notin> set (str_int i)"
  by (simp add: str_int_def str_nat_no_underscore)

lemma str_int_inj: "str_int i = str_int j \<Longrightarrow> i = j"
proof -
  assume h: "str_int i = str_int j"
  have hd_nat: "hd (str_nat n) \<noteq> CHR ''-''" for n
    using str_nat_no_minus [of n] str_nat_nonempty [of n] by (cases "str_nat n") auto
  show ?thesis
  proof (cases "i < 0")
    case True
    show ?thesis
    proof (cases "j < 0")
      case True
      with \<open>i < 0\<close> h have "nat (- i) = nat (- j)"
        by (auto simp: str_int_def dest: str_nat_inj)
      with True \<open>i < 0\<close> show ?thesis by simp
    next
      case False
      with True h hd_nat [of "nat j"] show ?thesis
        by (auto simp: str_int_def dest!: arg_cong [where f = hd])
    qed
  next
    case False
    show ?thesis
    proof (cases "j < 0")
      case True
      with False h hd_nat [of "nat i"] show ?thesis
        by (auto simp: str_int_def dest!: arg_cong [where f = hd])
    next
      case jf: False
      with False h have "nat i = nat j"
        by (auto simp: str_int_def dest: str_nat_inj)
      with False jf show ?thesis by simp
    qed
  qed
qed

lemma split_at_last:
  assumes "xs @ c # ys = xs' @ c # ys'" "c \<notin> set ys" "c \<notin> set ys'"
  shows "xs = xs' \<and> ys = ys'"
proof -
  have tw: "takeWhile (\<lambda>x. x \<noteq> c) (rev (as @ c # bs)) = rev bs" if "c \<notin> set bs" for as bs
    using that by (auto simp: takeWhile_tail)
  from assms(1) have "takeWhile (\<lambda>x. x \<noteq> c) (rev (xs @ c # ys))
                     = takeWhile (\<lambda>x. x \<noteq> c) (rev (xs' @ c # ys'))" by simp
  with tw [OF assms(2)] tw [OF assms(3)] have "ys = ys'" by simp
  with assms(1) show ?thesis by simp
qed

lemma surface_key_eq:
  "(surface_key cp s = surface_key cp' s') = (cp = cp' \<and> bucket s = bucket s')"
proof
  assume "surface_key cp s = surface_key cp' s'"
  then have "cp @ CHR ''_'' # str_int (bucket s) = cp' @ CHR ''_'' # str_int (bucket s')"
    by (simp add: surface_key_def)
  from split_at_last [OF this str_int_no_underscore str_int_no_underscore]
  show "cp = cp' \<and> bucket s = bucket s'" by (auto dest: str_int_inj)
qed (simp add: surface_key_def)




lemma dpe_map_add_get:
  "dict_get_default (dpe_map_add key d m) k []
     = (if k = key then dict_get_default m k [] @ [d] else dict_get_default m k [])"
  by (induction key d m rule: dpe_map_add.induct)
     (auto simp: dict_get_default_def dict_get_def)

lemma fold_dpe_map_get:
  "dict_get_default
       (fold (\<lambda>d m. dpe_map_add (surface_key (dpe_code_postal d) (surface_habitable d)) d m)
          ds m) k []
     = dict_get_default m k []
       @ filter (\<lambda>d. surface_key (dpe_code_postal d) (surface_habitable d) = k) ds"
  by (induction ds arbitrary: m) (auto simp: dpe_map_add_get)

lemma build_dpe_map_get:
  "dict_get_default (build_dpe_map ds) k []
     = filter (\<lambda>d. surface_key (dpe_code_postal d) (surface_habitable d) = k) ds"
  by (simp add: build_dpe_map_def fold_dpe_map_get) (simp add: dict_get_default_def dict_get_def)

lemma matching_dpes_candidates:
  "surface_reelle_bati t = Some s \<Longrightarrow>
     dict_get_default (build_dpe_map ds) (surface_key (code_postal t) s) [] = candidates ds t"
  by (simp add: build_dpe_map_get candidates_def surface_key_eq)

lemma max_by_date_Inr:
  "max_by_date best ds = Inr m \<Longrightarrow>
     m \<in> set (best # ds)
     \<and> (\<forall>d\<in>set (best # ds).
           instant (date_etablissement_dpe d) \<le> instant (date_etablissement_dpe m))"
proof (induction best ds rule: max_by_date.induct)
  case (1 best)
  then show ?case by simp
next
  case (2 best d ds)
  show ?case
  proof (cases "datetime_gt (date_etablissement_dpe d) (date_etablissement_dpe best)")
    case (Inl e)
    with "2.prems" show ?thesis by simp
  next
    case (Inr b)
    then have lt: "b = (instant (date_etablissement_dpe best)
                         < instant (date_etablissement_dpe d))"
      by (auto simp: datetime_gt_def split: if_splits)
    show ?thesis
    proof (cases b)
      case True
      with Inr "2.prems" have "max_by_date d ds = Inr m" by simp
      with "2.IH"(1) [OF Inr] True lt show ?thesis by auto
    next
      case False
      with Inr "2.prems" have "max_by_date best ds = Inr m" by simp
      with "2.IH"(2) [OF Inr] False lt show ?thesis by auto
    qed
  qed
qed

lemma py_max_date_Inr:
  "py_max_date ds = Inr m \<Longrightarrow>
     m \<in> set ds
     \<and> (\<forall>d\<in>set ds. instant (date_etablissement_dpe d) \<le> instant (date_etablissement_dpe m))"
  by (cases ds) (auto dest: max_by_date_Inr)

lemma enrich_loop_Inr:
  "enrich_loop (build_dpe_map ds) txns = Inr es \<Longrightarrow>
     map transaction es = filter eligible txns \<and> (\<forall>e\<in>set es. entry_of ds e)"
proof (induction txns arbitrary: es)
  case Nil
  then show ?case by simp
next
  case (Cons t txns)
  show ?case
  proof (cases "eligible t")
    case False
    with Cons.prems have "enrich_loop (build_dpe_map ds) txns = Inr es"
      by (auto simp: eligible_def split: option.splits)
    from Cons.IH [OF this] False show ?thesis by simp
  next
    case True
    then obtain s where s: "surface_reelle_bati t = Some s" "s \<noteq> 0"
      by (auto simp: eligible_def split: option.splits)
    note c = matching_dpes_candidates [OF s(1), of ds]
    show ?thesis
    proof (cases "candidates ds t = []")
      case True
      with Cons.prems s c obtain es' where
        es': "enrich_loop (build_dpe_map ds) txns = Inr es'"
        and es: "es = \<lparr>transaction = t, dpe = None, confidence = ''none''\<rparr> # es'"
        by (auto simp: Let_def split: sum.splits)
      from Cons.IH [OF es'] es True \<open>eligible t\<close> show ?thesis
        by (simp add: entry_of_def)
    next
      case False
      with Cons.prems s c obtain m es' where
        m: "py_max_date (candidates ds t) = Inr m"
        and es': "enrich_loop (build_dpe_map ds) txns = Inr es'"
        and es: "es = \<lparr>transaction = t, dpe = Some m, confidence = ''medium''\<rparr> # es'"
        by (auto simp: Let_def split: sum.splits)
      from py_max_date_Inr [OF m] False
      have "entry_of ds \<lparr>transaction = t, dpe = Some m, confidence = ''medium''\<rparr>"
        by (simp add: entry_of_def)
      with Cons.IH [OF es'] es \<open>eligible t\<close> show ?thesis by simp
    qed
  qed
qed

lemma cross_reference_Inr:
  assumes "fst (cross_reference_dvf_dpe L f now cp days) = Inr es"
  shows "\<exists>txns ds.
           fst (fetch_dvf_transactions L f (Some cp) None
                  (Some (now\<lparr>instant := instant now - days * 86400000000\<rparr>)) None None 200)
             = Inr txns
           \<and> fst (fetch_dpe_diagnostics L f (Some cp) None None
                  (Some (now\<lparr>instant := instant now - days * 86400000000\<rparr>)) 200)
             = Inr ds
           \<and> map transaction es = filter eligible txns
           \<and> (\<forall>e\<in>set es. entry_of ds e)"
  using assms
  by (auto simp: cross_reference_dvf_dpe_def Let_def split: sum.splits dest: enrich_loop_Inr)

lemma sample_fetch_dvf:
  "fetch_dvf_transactions L (sample_fetcher rs ds) cp cc dmin dmax ty limit
     = (dvf_loop L default_GDPRConfig (py_take limit rs),
        [(generate_cache_key L ''dvf'' (dvf_params L cp cc dmin dmax ty limit), 86400, JArr rs)])"
  by (simp add: fetch_dvf_transactions_def sample_fetcher_def get_from_cache_def
      fetch_with_retry_def MAX_RETRIES_def eval_nat_numeral dict_get_def json_slice_def
      set_to_cache_def CACHE_TTL_DVF_def)

lemma sample_fetch_dpe:
  "fetch_dpe_diagnostics L (sample_fetcher rs ds) cp cl tb dmin limit
     = (Inr (dpe_loop L (py_take limit ds)),
        [(generate_cache_key L ''dpe'' (dpe_params L cp cl tb dmin limit), 43200, JArr ds)])"
  by (simp add: fetch_dpe_diagnostics_def sample_fetcher_def get_from_cache_def
      fetch_with_retry_def MAX_RETRIES_def eval_nat_numeral dict_get_def json_slice_def
      set_to_cache_def CACHE_TTL_DPE_def DVF_BASE_URL_def ADEME_DPE_BASE_URL_def)

lemma sample_parse_dvf:
  "dvf_loop sample_library default_GDPRConfig [sample_dvf_record numero (JNum s)]
     = Inr [sample_transaction (Some s)]"
  "dvf_loop sample_library default_GDPRConfig [sample_dvf_record numero JNull]
     = Inr [sample_transaction None]"
  by (simp_all add: sample_dvf_record_def default_GDPRConfig_def anonymize_address_def
      dict_get_default_def dict_get_def dict_pop_def parse_dvf_def sample_library_def
      parse_datetime_def replace_Z_def py_float_def optional_field_def sample_transaction_def)

lemma sample_parse_dpe:
  "parse_dpe sample_library (sample_dpe_result number ''2025-03-01'' s)
     = Some (sample_diagnostic number (datetime_ymd 2025 3 1) s)"
  "parse_dpe sample_library (sample_dpe_result number ''2025-06-01'' s)
     = Some (sample_diagnostic number (datetime_ymd 2025 6 1) s)"
  by (simp_all add: sample_dpe_result_def dict_get_default_def dict_get_def parse_dpe_def
      sample_library_def parse_datetime_def replace_Z_def py_float_def optional_field_def
      sample_diagnostic_def e_acute_def a_circ_def degree_def)


lemma sample_cross:
  "fst (cross_reference_dvf_dpe L (sample_fetcher rs ds) now cp days)
     = (case dvf_loop L default_GDPRConfig (py_take 200 rs) of
          Inl e \<Rightarrow> Inl e
        | Inr txns \<Rightarrow> enrich_loop (build_dpe_map (dpe_loop L (py_take 200 ds))) txns)"
  by (simp add: cross_reference_dvf_dpe_def Let_def sample_fetch_dvf sample_fetch_dpe
      split: sum.splits)

lemma sample_buckets:
  "bucket 64 = 60" "bucket 68 = 60" "bucket 61 = 60" "bucket 71 = 70"
  "bucket 5 = 0" "bucket (- 5) = 0"
  by (simp_all add: bucket_def py_int_def ceiling_def)


lemma sample_fields:
  "surface_reelle_bati (sample_transaction s) = s"
  "code_postal (sample_transaction s) = ''75015''"
  "dpe_code_postal (sample_diagnostic n t x) = ''75015''"
  "surface_habitable (sample_diagnostic n t x) = x"
  "date_etablissement_dpe (sample_diagnostic n t x) = t"
  by (simp_all add: sample_transaction_def sample_diagnostic_def)

lemma enrich_one:
  "enrich_loop (build_dpe_map ds) [t]
     = (if eligible t
        then (if candidates ds t = []
              then Inr [\<lparr>transaction = t, dpe = None, confidence = ''none''\<rparr>]
              else (case py_max_date (candidates ds t) of
                      Inl e \<Rightarrow> Inl e
                    | Inr m \<Rightarrow> Inr [\<lparr>transaction = t, dpe = Some m,
                                       confidence = ''medium''\<rparr>]))
        else Inr [])"
proof (cases "surface_reelle_bati t")
  case None
  then show ?thesis by (simp add: eligible_def)
next
  case (Some s)
  from matching_dpes_candidates [OF Some, of ds] Some show ?thesis
    by (simp add: eligible_def Let_def split: sum.splits)
qed

lemma sample_cross_unmatched:
  "fst (cross_reference_dvf_dpe sample_library
          (sample_fetcher [sample_dvf_record ''12'' (JNum 64)]
             [sample_dpe_result ''D1'' ''2025-03-01'' 71])
          (datetime_ymd 2026 1 1) ''75015'' 365)
     = Inr [\<lparr>transaction = sample_transaction (Some 64), dpe = None,
              confidence = ''none''\<rparr>]"
  by (simp add: sample_cross py_take_def sample_parse_dvf sample_parse_dpe enrich_one
      eligible_def candidates_def sample_fields sample_buckets del: dvf_loop.simps enrich_loop.simps)

lemma sample_cross_dropped:
  "fst (cross_reference_dvf_dpe sample_library
          (sample_fetcher [sample_dvf_record ''12'' JNull] [])
          (datetime_ymd 2026 1 1) ''75015'' 365) = Inr []"
  by (simp add: sample_cross py_take_def sample_parse_dvf enrich_one
      eligible_def sample_fields del: dvf_loop.simps enrich_loop.simps)

lemma sample_fetch_no_surface:
  "fst (fetch_dvf_transactions sample_library
          (sample_fetcher [sample_dvf_record ''12'' JNull] [])
          (Some ''75015'') None
          (Some ((datetime_ymd 2026 1 1)
                   \<lparr>instant := instant (datetime_ymd 2026 1 1) - 365 * 86400000000\<rparr>))
          None None 200) = Inr [sample_transaction None]"
  by (simp add: sample_fetch_dvf py_take_def sample_parse_dvf del: dvf_loop.simps enrich_loop.simps)



lemma enriched_eq:
  "\<lbrakk>transaction e = t; dpe e = d; confidence e = c\<rbrakk>
     \<Longrightarrow> e = \<lparr>transaction = t, dpe = d, confidence = c\<rparr>"
  by (cases e) simp

text \<open>
  Claim C4, as stated, fails: a fetched transaction that has no built-surface
  value is passed over by the enrichment loop and does not appear in the
  returned list at all.
\<close>

theorem transaction_without_surface_is_dropped:
  "fst (fetch_dvf_transactions sample_library
          (sample_fetcher [sample_dvf_record ''12'' JNull] [])
          (Some ''75015'') None
          (Some ((datetime_ymd 2026 1 1)
                   \<lparr>instant := instant (datetime_ymd 2026 1 1) - 365 * 86400000000\<rparr>))
          None None 200) = Inr [sample_transaction None]
   \<and> surface_reelle_bati (sample_transaction None) = None
   \<and> fst (cross_reference_dvf_dpe sample_library
          (sample_fetcher [sample_dvf_record ''12'' JNull] [])
          (datetime_ymd 2026 1 1) ''75015'' 365) = Inr []"
  using sample_fetch_no_surface sample_cross_dropped by (simp add: sample_fields)

text \<open>
  Claim C4, amended. In every list that reconcile returns, a fetched
  transaction whose built surface is absent or zero has no entry, and a fetched
  transaction with a non-zero surface that shares postal code and band with no
  diagnostic has the entry with a null diagnostic and confidence \<open>none\<close>.
\<close>

theorem unmatched_transactions_have_no_diagnostic:
  fixes L f now cp days
  defines "date_min \<equiv> now\<lparr>instant := instant now - days * 86400000000\<rparr>"
  assumes "fst (cross_reference_dvf_dpe L f now cp days) = Inr es"
  shows "\<exists>txns ds.
           fst (fetch_dvf_transactions L f (Some cp) None (Some date_min) None None 200)
             = Inr txns
           \<and> fst (fetch_dpe_diagnostics L f (Some cp) None None (Some date_min) 200) = Inr ds
           \<and> (\<forall>t\<in>set txns.
                 (surface_reelle_bati t = None \<or> surface_reelle_bati t = Some 0)
                 \<longrightarrow> t \<notin> transaction ` set es)
           \<and> (\<forall>t\<in>set txns.
                 eligible t
                 \<and> (\<forall>d\<in>set ds. \<not> (dpe_code_postal d = code_postal t
                        \<and> bucket (surface_habitable d)
                            = bucket (the (surface_reelle_bati t))))
                 \<longrightarrow> \<lparr>transaction = t, dpe = None, confidence = ''none''\<rparr> \<in> set es)"
proof -
  from cross_reference_Inr [OF assms(2)] obtain txns ds where
    a: "fst (fetch_dvf_transactions L f (Some cp) None (Some date_min) None None 200)
          = Inr txns"
    and b: "fst (fetch_dpe_diagnostics L f (Some cp) None None (Some date_min) 200) = Inr ds"
    and c: "map transaction es = filter eligible txns"
    and d: "\<forall>e\<in>set es. entry_of ds e"
    unfolding date_min_def by blast
  from c have img: "transaction ` set es = {t \<in> set txns. eligible t}"
    by (metis set_map set_filter)
  have 1: "\<forall>t\<in>set txns.
                 (surface_reelle_bati t = None \<or> surface_reelle_bati t = Some 0)
                 \<longrightarrow> t \<notin> transaction ` set es"
    unfolding img by (auto simp: eligible_def)
  have 2: "\<lparr>transaction = t, dpe = None, confidence = ''none''\<rparr> \<in> set es"
    if t: "t \<in> set txns" "eligible t"
      and n: "\<forall>d\<in>set ds. \<not> (dpe_code_postal d = code_postal t
                        \<and> bucket (surface_habitable d)
                            = bucket (the (surface_reelle_bati t)))" for t
  proof -
    from t img have "t \<in> transaction ` set es" by simp
    then obtain e where e: "e \<in> set es" "transaction e = t" by auto
    from n t(2) have "candidates ds t = []"
      by (auto simp: candidates_def eligible_def filter_empty_conv split: option.splits)
    with d e have "dpe e = None \<and> confidence e = ''none''"
      by (auto simp: entry_of_def)
    with e have "e = \<lparr>transaction = t, dpe = None, confidence = ''none''\<rparr>"
      by (intro enriched_eq) simp_all
    with e(1) show ?thesis by simp
  qed
  from a b 1 2 show ?thesis by blast
qed



theorem unmatched_transactions_have_no_diagnostic_witness:
  "fst (cross_reference_dvf_dpe sample_library
          (sample_fetcher [sample_dvf_record ''12'' (JNum 64)]
             [sample_dpe_result ''D1'' ''2025-03-01'' 71])
          (datetime_ymd 2026 1 1) ''75015'' 365)
     = Inr [\<lparr>transaction = sample_transaction (Some 64), dpe = None,
              confidence = ''none''\<rparr>]
   \<and> eligible (sample_transaction (Some 64))
   \<and> bucket (surface_habitable (sample_diagnostic ''D1'' (datetime_ymd 2025 3 1) 71))
       \<noteq> bucket (the (surface_reelle_bati (sample_transaction (Some 64))))
   \<and> \<lparr>transaction = sample_transaction (Some 64), dpe = None, confidence = ''none''\<rparr>
       \<in> set [\<lparr>transaction = sample_transaction (Some 64), dpe = None,
                 confidence = ''none''\<rparr>]"
proof -
  let ?f = "sample_fetcher [sample_dvf_record ''12'' (JNum 64)]
              [sample_dpe_result ''D1'' ''2025-03-01'' 71]"
  let ?t = "sample_transaction (Some 64)"
  let ?d = "sample_diagnostic ''D1'' (datetime_ymd 2025 3 1) 71"
  let ?es = "[\<lparr>transaction = ?t, dpe = None, confidence = ''none''\<rparr>]"
  note r = sample_cross_unmatched
  from unmatched_transactions_have_no_diagnostic [OF r] obtain txns ds where
    a: "fst (fetch_dvf_transactions sample_library ?f (Some ''75015'') None
              (Some ((datetime_ymd 2026 1 1)
                 \<lparr>instant := instant (datetime_ymd 2026 1 1) - 365 * 86400000000\<rparr>))
              None None 200) = Inr txns"
    and b: "fst (fetch_dpe_diagnostics sample_library ?f (Some ''75015'') None None
              (Some ((datetime_ymd 2026 1 1)
                 \<lparr>instant := instant (datetime_ymd 2026 1 1) - 365 * 86400000000\<rparr>))
              200) = Inr ds"
    and d: "\<forall>t\<in>set txns.
              eligible t
              \<and> (\<forall>d\<in>set ds. \<not> (dpe_code_postal d = code_postal t
                     \<and> bucket (surface_habitable d) = bucket (the (surface_reelle_bati t))))
              \<longrightarrow> \<lparr>transaction = t, dpe = None, confidence = ''none''\<rparr> \<in> set ?es"
    by blast
  from a have txns: "txns = [?t]"
    by (simp add: sample_fetch_dvf py_take_def sample_parse_dvf del: dvf_loop.simps)
  from b have ds: "ds = [?d]"
    by (simp add: sample_fetch_dpe py_take_def sample_parse_dpe)
  have e: "eligible ?t" by (simp add: eligible_def sample_fields)
  have n: "bucket (surface_habitable ?d) \<noteq> bucket (the (surface_reelle_bati ?t))"
    by (simp add: sample_fields sample_buckets)
  from d txns ds e n
  have "\<lparr>transaction = ?t, dpe = None, confidence = ''none''\<rparr> \<in> set ?es" by simp
  with r e n show ?thesis by (intro conjI)
qed


end
